theory Spec2Isabelle
  imports Complex_Main
begin

section \<open>JavaScript values\<close>

text \<open>
  A JavaScript number is modelled as a real number or \<open>NaN\<close>; \<open>Undefined\<close> stands for a
  value whose \<open>typeof\<close> is not \<open>'number'\<close>. Rounding of IEEE doubles and the two
  infinities are not modelled: arithmetic on \<open>Num\<close> is exact. The one function whose
  results are rounded to integers afterwards, \<open>rotatePoint\<close>, takes its arithmetic as a
  parameter.
\<close>

datatype jsval = Undefined | NaN | Num real

text \<open>\<open>typeof v === 'number'\<close>: true of \<open>NaN\<close> as well.\<close>

fun typeof_number :: "jsval \<Rightarrow> bool" where
  "typeof_number Undefined = False"
| "typeof_number NaN = True"
| "typeof_number (Num r) = True"

text \<open>The global \<open>isNaN(v)\<close>, which converts its argument to a number first.\<close>

fun isNaN :: "jsval \<Rightarrow> bool" where
  "isNaN Undefined = True"
| "isNaN NaN = True"
| "isNaN (Num r) = False"

text \<open>\<open>v || d\<close> for a numeric default: \<open>undefined\<close>, \<open>NaN\<close> and \<open>0\<close> are falsy.\<close>

fun or_default :: "jsval \<Rightarrow> real \<Rightarrow> real" where
  "or_default Undefined d = d"
| "or_default NaN d = d"
| "or_default (Num r) d = (if r = 0 then d else r)"

text \<open>\<open>a + b\<close>, \<open>a - b\<close>, \<open>a * b\<close> on numbers: anything but two numbers gives \<open>NaN\<close>.\<close>

fun jadd :: "jsval \<Rightarrow> jsval \<Rightarrow> jsval" where
  "jadd (Num a) (Num b) = Num (a + b)"
| "jadd a b = NaN"

fun jsub :: "jsval \<Rightarrow> jsval \<Rightarrow> jsval" where
  "jsub (Num a) (Num b) = Num (a - b)"
| "jsub a b = NaN"

fun jmul :: "jsval \<Rightarrow> jsval \<Rightarrow> jsval" where
  "jmul (Num a) (Num b) = Num (a * b)"
| "jmul a b = NaN"

text \<open>\<open>a < b\<close>: false as soon as one side is not a number.\<close>

fun jlt :: "jsval \<Rightarrow> jsval \<Rightarrow> bool" where
  "jlt (Num a) (Num b) = (a < b)"
| "jlt a b = False"

text \<open>\<open>Math.min(a, b)\<close>.\<close>

fun jmin :: "jsval \<Rightarrow> jsval \<Rightarrow> jsval" where
  "jmin (Num a) (Num b) = Num (min a b)"
| "jmin a b = NaN"

text \<open>\<open>Math.round(x)\<close>: the nearest integer, halves rounded up.\<close>

definition Math_round :: "real \<Rightarrow> real" where
  "Math_round x = of_int \<lfloor>x + 1 / 2\<rfloor>"

text \<open>\<open>Math.sign(x)\<close>.\<close>

definition Math_sign :: "real \<Rightarrow> real" where
  "Math_sign x = (if x > 0 then 1 else if x < 0 then - 1 else 0)"

text \<open>\<open>a % 1\<close>: the remainder has the sign of the dividend.\<close>

definition mod1 :: "real \<Rightarrow> real" where
  "mod1 a = (if a \<ge> 0 then a - of_int \<lfloor>a\<rfloor> else a - of_int \<lceil>a\<rceil>)"

text \<open>A \<open>THREE.Vector3\<close>; its fields are plain properties and can hold any value.\<close>

datatype vec = Vector3 (vx: jsval) (vy: jsval) (vz: jsval)

text \<open>\<open>a.clone().add(b)\<close>.\<close>

fun vadd :: "vec \<Rightarrow> vec \<Rightarrow> vec" where
  "vadd (Vector3 a b c) (Vector3 d e f) = Vector3 (jadd a d) (jadd b e) (jadd c f)"

text \<open>
  A curve as an agent sees it: \<open>getPointAt\<close> and \<open>getTangentAt\<close>, each returning a vector
  or a falsy value (\<open>None\<close>).
\<close>

record curve =
  getPointAt :: "real \<Rightarrow> vec option"
  getTangentAt :: "real \<Rightarrow> vec option"

section \<open>Train (src/train.js)\<close>

definition TRAIN_LENGTH_RATIO :: real where "TRAIN_LENGTH_RATIO = 0.01"
definition CAR_GAP :: real where "CAR_GAP = 0.0005"

datatype CarType = HEAD | BODY | TAIL

datatype TrainState = MOVING | STOPPED

text \<open>
  One car slot. \<open>position\<close> is \<open>car.group.position\<close>; \<open>facing\<close> is the target of the last
  \<open>car.group.lookAt\<close> call (\<open>None\<close> before the first one), which together with the position
  fixes the orientation.
\<close>

record Car =
  ctype :: CarType
  offset :: real
  position :: vec
  facing :: "vec option"

record TrainConfig =
  initialProgress :: jsval
  cfg_speed :: jsval
  cfg_direction :: jsval

record Train =
  progress :: real
  speed :: real
  direction :: real
  state :: TrainState
  stopTimer :: real
  cars :: "Car list"

definition TRAIN_SPAN :: real where
  "TRAIN_SPAN = 3 * (TRAIN_LENGTH_RATIO + CAR_GAP)"

definition TRACK_BUFFER :: real where "TRACK_BUFFER = 0.01"

definition STOP_DURATION :: real where "STOP_DURATION = 5.0"

text \<open>The body of the \<open>forEach\<close> in \<open>updateCarPositions\<close>, for one car.\<close>

definition updateCar :: "curve \<Rightarrow> real \<Rightarrow> Car \<Rightarrow> Car" where
  "updateCar c p car =
     (let t = Num (p - offset car) in
      if isNaN t then car
      else
        let clampedT = max 0.0001 (min 0.9999 (p - offset car));
            pos = getPointAt c clampedT;
            tangent = getTangentAt c clampedT
        in case pos of
             None \<Rightarrow> car
           | Some pv \<Rightarrow>
               (case tangent of
                  None \<Rightarrow> car
                | Some tv \<Rightarrow>
                    if typeof_number (vx pv) \<and> typeof_number (vx tv) then
                      let car1 = car\<lparr>position := pv\<rparr>;
                          lookTarget = vadd pv tv
                      in if typeof_number (vx lookTarget)
                         then car1\<lparr>facing := Some lookTarget\<rparr>
                         else car1
                    else car))"

text \<open>\<open>this.curve\<close> is \<open>None\<close> when the curve or its \<open>getPointAt\<close> is missing.\<close>

definition updateCarPositions :: "curve option \<Rightarrow> Train \<Rightarrow> Train" where
  "updateCarPositions co s =
     (case co of
        None \<Rightarrow> s
      | Some c \<Rightarrow> s\<lparr>cars := map (updateCar c (progress s)) (cars s)\<rparr>)"

definition newCar :: "CarType \<Rightarrow> nat \<Rightarrow> Car" where
  "newCar ty i =
     \<lparr>ctype = ty, offset = real i * (TRAIN_LENGTH_RATIO + CAR_GAP),
      position = Vector3 (Num 0) (Num 0) (Num 0), facing = None\<rparr>"

definition Train_constructor :: "TrainConfig \<Rightarrow> curve option \<Rightarrow> Train" where
  "Train_constructor config co =
     (let p0 = or_default (initialProgress config) 0;
          p = max (TRAIN_SPAN + TRACK_BUFFER) (min (1.0 - TRACK_BUFFER) p0)
      in updateCarPositions co
           \<lparr>progress = p,
            speed = or_default (cfg_speed config) 0.1,
            direction = or_default (cfg_direction config) 1,
            state = MOVING,
            stopTimer = 0,
            cars = [newCar HEAD 0, newCar BODY 1, newCar BODY 2, newCar TAIL 3]\<rparr>)"

definition Train_update :: "curve option \<Rightarrow> jsval \<Rightarrow> Train \<Rightarrow> Train" where
  "Train_update co delta s =
     (if isNaN delta then s else
      case delta of
        Num d \<Rightarrow>
          if state s = STOPPED then
            (let s1 = s\<lparr>stopTimer := stopTimer s - d\<rparr>
             in if stopTimer s1 \<le> 0 then s1\<lparr>state := MOVING\<rparr> else s1)
          else
            (let speedScale = 0.1;
                 s1 = s\<lparr>progress := progress s + direction s * speed s * d * speedScale\<rparr>;
                 maxProgress = 1.0 - TRACK_BUFFER;
                 minProgress = TRAIN_SPAN + TRACK_BUFFER;
                 s2 = (if progress s1 \<ge> maxProgress then
                         s1\<lparr>progress := maxProgress, direction := - 1,
                            state := STOPPED, stopTimer := STOP_DURATION\<rparr>
                       else if progress s1 \<le> minProgress then
                         s1\<lparr>progress := minProgress, direction := 1,
                            state := STOPPED, stopTimer := STOP_DURATION\<rparr>
                       else s1)
             in updateCarPositions co s2)
      | _ \<Rightarrow> s)"

text \<open>A sequence of frames: \<open>update\<close> called once per delta, in order.\<close>

definition Train_run :: "curve option \<Rightarrow> jsval list \<Rightarrow> Train \<Rightarrow> Train" where
  "Train_run co ds s = foldl (\<lambda>s d. Train_update co d s) s ds"

text \<open>The two trains of \<open>src/index.js\<close>.\<close>

definition redTrain_config :: TrainConfig where
  "redTrain_config = \<lparr>initialProgress = Num 0.05, cfg_speed = Num 0.35, cfg_direction = Num 1\<rparr>"

definition blueTrain_config :: TrainConfig where
  "blueTrain_config = \<lparr>initialProgress = Num 0.95, cfg_speed = Num 0.32, cfg_direction = Num (- 1)\<rparr>"

text \<open>The progress range the constructor and \<open>update\<close> clamp to.\<close>

definition in_bounds :: "Train \<Rightarrow> bool" where
  "in_bounds s \<longleftrightarrow> TRAIN_SPAN + TRACK_BUFFER \<le> progress s \<and> progress s \<le> 1 - TRACK_BUFFER"

text \<open>The test \<open>v && typeof v.x === 'number'\<close> that \<open>updateCarPositions\<close> applies to a sample.\<close>

fun numeric_x :: "vec option \<Rightarrow> bool" where
  "numeric_x None = False"
| "numeric_x (Some v) = typeof_number (vx v)"

text \<open>A curve to run the car update on: its points are all \<open>NaN\<close>, its tangents
  \<open>(0, 0, 1)\<close>.\<close>

definition nan_curve :: curve where
  "nan_curve = \<lparr>getPointAt = (\<lambda>t. Some (Vector3 NaN NaN NaN)),
                getTangentAt = (\<lambda>t. Some (Vector3 (Num 0) (Num 0) (Num 1)))\<rparr>"

section \<open>TrafficCar and HeroTaxi (closed-loop followers)\<close>

text \<open>
  \<open>tc_heading\<close> holds the pair \<open>(pos, nextPos)\<close> of the last \<open>m.lookAt(pos, nextPos, up)\<close>,
  from which the group's quaternion is set.
\<close>

record TrafficCar =
  tc_progress :: real
  tc_speed :: real
  tc_position :: vec
  tc_heading :: "(vec \<times> vec) option"

definition TrafficCar_constructor :: "real \<Rightarrow> real \<Rightarrow> TrafficCar" where
  "TrafficCar_constructor initialProgress0 speed0 =
     \<lparr>tc_progress = initialProgress0, tc_speed = speed0,
      tc_position = Vector3 (Num 0) (Num 0) (Num 0), tc_heading = None\<rparr>"

text \<open>The first two statements of \<open>TrafficCar.update\<close>: advance, then wrap once.\<close>

definition TrafficCar_advance :: "real \<Rightarrow> TrafficCar \<Rightarrow> TrafficCar" where
  "TrafficCar_advance delta s =
     (let LOOP_SPEED_SCALE = 0.0005;
          s1 = s\<lparr>tc_progress := tc_progress s + tc_speed s * delta * LOOP_SPEED_SCALE\<rparr>
      in if tc_progress s1 > 1 then s1\<lparr>tc_progress := tc_progress s1 - 1\<rparr> else s1)"

definition TrafficCar_update :: "curve option \<Rightarrow> real \<Rightarrow> TrafficCar \<Rightarrow> TrafficCar" where
  "TrafficCar_update co delta s =
     (let s2 = TrafficCar_advance delta s in
      case co of
        None \<Rightarrow> s2
      | Some c \<Rightarrow>
          (let pos = getPointAt c (tc_progress s2);
               nextPos = getPointAt c (mod1 (tc_progress s2 + 0.005))
           in case pos of
                None \<Rightarrow> s2
              | Some pv \<Rightarrow>
                  (case nextPos of
                     None \<Rightarrow> s2
                   | Some nv \<Rightarrow>
                       if typeof_number (vx pv)
                       then s2\<lparr>tc_position := pv, tc_heading := Some (pv, nv)\<rparr>
                       else s2)))"

text \<open>The arguments of the two \<open>getPointAt\<close> calls of \<open>TrafficCar.update\<close>, in call order.\<close>

definition TrafficCar_sampled :: "real \<Rightarrow> TrafficCar \<Rightarrow> real list" where
  "TrafficCar_sampled delta s =
     (let s2 = TrafficCar_advance delta s
      in [tc_progress s2, mod1 (tc_progress s2 + 0.005)])"

record HeroTaxi =
  ht_progress :: real
  ht_speed :: real
  ht_position :: vec
  ht_heading :: "(vec \<times> vec) option"

definition HeroTaxi_constructor :: HeroTaxi where
  "HeroTaxi_constructor =
     \<lparr>ht_progress = 0.85, ht_speed = 70,
      ht_position = Vector3 (Num 0) (Num 0) (Num 0), ht_heading = None\<rparr>"

definition HeroTaxi_advance :: "real \<Rightarrow> HeroTaxi \<Rightarrow> HeroTaxi" where
  "HeroTaxi_advance delta s =
     (let LOOP_SPEED_SCALE = 0.0005;
          s1 = s\<lparr>ht_progress := ht_progress s + ht_speed s * delta * LOOP_SPEED_SCALE\<rparr>
      in if ht_progress s1 > 1 then s1\<lparr>ht_progress := ht_progress s1 - 1\<rparr> else s1)"

definition HeroTaxi_update :: "curve option \<Rightarrow> real \<Rightarrow> HeroTaxi \<Rightarrow> HeroTaxi" where
  "HeroTaxi_update co delta s =
     (let s2 = HeroTaxi_advance delta s in
      case co of
        None \<Rightarrow> s2
      | Some c \<Rightarrow>
          (let pos = getPointAt c (ht_progress s2);
               nextPos = getPointAt c (mod1 (ht_progress s2 + 0.005))
           in case pos of
                None \<Rightarrow> s2
              | Some pv \<Rightarrow>
                  (case nextPos of
                     None \<Rightarrow> s2
                   | Some nv \<Rightarrow>
                       if typeof_number (vx pv)
                       then s2\<lparr>ht_position := pv, ht_heading := Some (pv, nv)\<rparr>
                       else s2)))"

definition HeroTaxi_sampled :: "real \<Rightarrow> HeroTaxi \<Rightarrow> real list" where
  "HeroTaxi_sampled delta s =
     (let s2 = HeroTaxi_advance delta s
      in [ht_progress s2, mod1 (ht_progress s2 + 0.005)])"

section \<open>createSteppedLobe (voxel grid, boundary extraction, instanced mesh)\<close>

definition voxelSize :: real where "voxelSize = 1.25"

text \<open>\<open>for (v = lo; v <= hi; v += voxelSize)\<close> and \<open>for (v = lo; v < hi; v += voxelSize)\<close>:
  the values the loop variable takes.\<close>

function loop_le :: "real \<Rightarrow> real \<Rightarrow> real list" where
  "loop_le v hi = (if v \<le> hi then v # loop_le (v + voxelSize) hi else [])"
  by pat_completeness auto
termination
proof (relation "measure (\<lambda>(v, hi). nat (\<lfloor>(hi - v) / voxelSize\<rfloor> + 1))")
  show "wf (measure (\<lambda>(v, hi). nat (\<lfloor>(hi - v) / voxelSize\<rfloor> + 1)))" by simp
next
  fix v hi :: real
  assume le: "v \<le> hi"
  have eq: "(hi - (v + voxelSize)) / voxelSize = (hi - v) / voxelSize - 1"
    by (simp add: voxelSize_def field_simps)
  have fl: "\<lfloor>(hi - (v + voxelSize)) / voxelSize\<rfloor> = \<lfloor>(hi - v) / voxelSize\<rfloor> - 1"
    unfolding eq by simp
  have "0 \<le> (hi - v) / voxelSize" using le by (simp add: voxelSize_def)
  then have "0 \<le> \<lfloor>(hi - v) / voxelSize\<rfloor>" by simp
  then show "((v + voxelSize, hi), (v, hi)) \<in> measure (\<lambda>(v, hi). nat (\<lfloor>(hi - v) / voxelSize\<rfloor> + 1))"
    by (simp add: fl)
qed

function loop_lt :: "real \<Rightarrow> real \<Rightarrow> real list" where
  "loop_lt v hi = (if v < hi then v # loop_lt (v + voxelSize) hi else [])"
  by pat_completeness auto
termination
proof (relation "measure (\<lambda>(v, hi). nat (\<lfloor>(hi - v) / voxelSize\<rfloor> + 1))")
  show "wf (measure (\<lambda>(v, hi). nat (\<lfloor>(hi - v) / voxelSize\<rfloor> + 1)))" by simp
next
  fix v hi :: real
  assume lt: "v < hi"
  have eq: "(hi - (v + voxelSize)) / voxelSize = (hi - v) / voxelSize - 1"
    by (simp add: voxelSize_def field_simps)
  have fl: "\<lfloor>(hi - (v + voxelSize)) / voxelSize\<rfloor> = \<lfloor>(hi - v) / voxelSize\<rfloor> - 1"
    unfolding eq by simp
  have "0 \<le> (hi - v) / voxelSize" using lt by (simp add: voxelSize_def)
  then have "0 \<le> \<lfloor>(hi - v) / voxelSize\<rfloor>" by simp
  then show "((v + voxelSize, hi), (v, hi)) \<in> measure (\<lambda>(v, hi). nat (\<lfloor>(hi - v) / voxelSize\<rfloor> + 1))"
    by (simp add: fl)
qed

text \<open>
  The grid is a JavaScript \<open>Map\<close>: an association list in insertion order with one entry
  per key. The key string \<open>ix,iy,iz\<close> of three integers is modelled as the triple itself.
  A value is the object \<open>{x, y, z}\<close> of world coordinates.
\<close>

type_synonym key = "int \<times> int \<times> int"

record GridVal =
  gx :: real
  gy :: real
  gz :: real

type_synonym grid = "(key \<times> GridVal) list"

text \<open>\<open>grid.set(key, val)\<close>: an existing key keeps its place and gets the new value.\<close>

fun grid_set :: "key \<Rightarrow> GridVal \<Rightarrow> grid \<Rightarrow> grid" where
  "grid_set k v [] = [(k, v)]"
| "grid_set k v ((k', v') # g) =
     (if k' = k then (k, v) # g else (k', v') # grid_set k v g)"

text \<open>\<open>grid.has(key)\<close>.\<close>

definition grid_has :: "grid \<Rightarrow> key \<Rightarrow> bool" where
  "grid_has g k \<longleftrightarrow> k \<in> set (map fst g)"

text \<open>\<open>Math.round(v / voxelSize)\<close> as an integer index.\<close>

definition grid_index :: "real \<Rightarrow> int" where
  "grid_index v = \<lfloor>v / voxelSize + 1 / 2\<rfloor>"

text \<open>
  The body of the innermost sweep loop at local coordinates \<open>(x, y, z)\<close>. The centre is
  \<open>(cx, cy, cz)\<close>, the dimensions \<open>(w, h, d)\<close>; all four callers pass positive dimensions.
  \<open>exclusionFn\<close> is optional.
\<close>

definition lobe_cell ::
  "real \<times> real \<times> real \<Rightarrow> real \<times> real \<times> real \<Rightarrow> (real \<Rightarrow> real \<Rightarrow> real \<Rightarrow> bool) \<Rightarrow>
   (real \<Rightarrow> real \<Rightarrow> real \<Rightarrow> bool) option \<Rightarrow> grid \<Rightarrow> real \<times> real \<times> real \<Rightarrow> grid" where
  "lobe_cell center dims shapeFn exclusionFn g cell =
     (case center of (cx, cy, cz) \<Rightarrow>
      case dims of (w, h, d) \<Rightarrow>
      case cell of (x, y, z) \<Rightarrow>
        (let nx = x / w;
             ny = (y - h / 2) / (h / 2);
             nz = z / d
         in if shapeFn nx ny nz then
              (let wx = cx + x; wy = cy + y; wz = cz + z in
               if (case exclusionFn of None \<Rightarrow> False | Some f \<Rightarrow> f wx wy wz) then g
               else grid_set (grid_index x, grid_index y, grid_index z)
                      \<lparr>gx = wx, gy = wy, gz = wz\<rparr> g)
            else g))"

text \<open>The sweep: \<open>y\<close> outermost, then \<open>x\<close>, then \<open>z\<close>.\<close>

definition sweep_cells :: "real \<times> real \<times> real \<Rightarrow> (real \<times> real \<times> real) list" where
  "sweep_cells dims =
     (case dims of (w, h, d) \<Rightarrow>
        concat (map (\<lambda>y. concat (map (\<lambda>x. map (\<lambda>z. (x, y, z)) (loop_le (- d) d))
                                        (loop_le (- w) w)))
                    (loop_lt 0 h)))"

definition build_grid ::
  "real \<times> real \<times> real \<Rightarrow> real \<times> real \<times> real \<Rightarrow> (real \<Rightarrow> real \<Rightarrow> real \<Rightarrow> bool) \<Rightarrow>
   (real \<Rightarrow> real \<Rightarrow> real \<Rightarrow> bool) option \<Rightarrow> grid" where
  "build_grid center dims shapeFn exclusionFn =
     foldl (lobe_cell center dims shapeFn exclusionFn) [] (sweep_cells dims)"

definition neighbors :: "key \<Rightarrow> key list" where
  "neighbors k =
     (case k of (ix, iy, iz) \<Rightarrow>
        [(ix + 1, iy, iz), (ix - 1, iy, iz), (ix, iy + 1, iz),
         (ix, iy - 1, iz), (ix, iy, iz + 1), (ix, iy, iz - 1)])"

text \<open>The boundary extraction \<open>grid.forEach\<close>: the entries whose value is pushed.\<close>

definition boundary_entries :: "grid \<Rightarrow> grid" where
  "boundary_entries g =
     filter (\<lambda>e. list_ex (\<lambda>nKey. \<not> grid_has g nKey) (neighbors (fst e))) g"

definition boundary_voxels :: "grid \<Rightarrow> GridVal list" where
  "boundary_voxels g = map snd (boundary_entries g)"



text \<open>The keys of a solid cube of side \<open>N\<close> cells with least corner \<open>(a, b, c)\<close>.\<close>

definition cube_keys :: "int \<Rightarrow> int \<Rightarrow> int \<Rightarrow> nat \<Rightarrow> key set" where
  "cube_keys a b c N = {a ..< a + int N} \<times> {b ..< b + int N} \<times> {c ..< c + int N}"

text \<open>The grid of a shape that is true everywhere, on a box of 3 by 3 by 3 cells.\<close>

definition cube3_grid :: grid where
  "cube3_grid = build_grid (0, 0, 0) (5 / 4, 15 / 4, 5 / 4) (\<lambda>nx ny nz. True) None"









section \<open>Symmetry helpers of generateNeedleVoxels\<close>

text \<open>
  \<open>rotatePoint\<close> computes in double-precision numbers, and \<open>add\<close> rounds what it returns
  to integers, so that the last binary place of a product decides the voxel where the
  exact product is half an integer: \<open>7 * cos (240 * pi / 180)\<close> is \<open>- 7 / 2\<close>, which
  rounds to \<open>- 3\<close>, and the double the code computes lies just below, which rounds to
  \<open>- 4\<close>. The arithmetic of \<open>rotatePoint\<close> is therefore a parameter of the model:
  \<open>fl\<close> is the rounding of a real number to a double, which follows every
  multiplication, division, addition and subtraction of the function, \<open>Math_cos\<close> and
  \<open>Math_sin\<close> are the two library functions, which the language leaves to the
  implementation, and \<open>Math_PI\<close> is the constant. \<open>exact_math\<close> is the arithmetic of the
  real numbers.
\<close>

record MathLib =
  fl :: "real \<Rightarrow> real"
  Math_cos :: "real \<Rightarrow> real"
  Math_sin :: "real \<Rightarrow> real"
  Math_PI :: real

definition exact_math :: MathLib where
  "exact_math = \<lparr>fl = (\<lambda>v. v), Math_cos = cos, Math_sin = sin, Math_PI = pi\<rparr>"

definition rotatePoint :: "MathLib \<Rightarrow> real \<Rightarrow> real \<Rightarrow> real \<Rightarrow> real \<times> real" where
  "rotatePoint M x z angleDeg =
     (let rad = fl M (angleDeg * fl M (Math_PI M / 180));
          c = Math_cos M rad;
          s = Math_sin M rad
      in (fl M (fl M (x * c) - fl M (z * s)), fl M (fl M (x * s) + fl M (z * c))))"

record Voxel =
  vox_x :: real
  vox_y :: real
  vox_z :: real
  vox_color :: string

record NeedleVoxels =
  solidVoxels :: "Voxel list"
  glassVoxels :: "Voxel list"
  rotatingVoxels :: "Voxel list"
  rotatingGlassVoxels :: "Voxel list"

definition add ::
  "real \<Rightarrow> real \<Rightarrow> real \<Rightarrow> string \<Rightarrow> string \<Rightarrow> NeedleVoxels \<Rightarrow> NeedleVoxels" where
  "add x y z color type st =
     (let v = \<lparr>vox_x = Math_round x, vox_y = Math_round y, vox_z = Math_round z,
               vox_color = color\<rparr>
      in if type = ''glass'' then st\<lparr>glassVoxels := glassVoxels st @ [v]\<rparr>
         else if type = ''rotating'' then st\<lparr>rotatingVoxels := rotatingVoxels st @ [v]\<rparr>
         else if type = ''rotatingGlass''
           then st\<lparr>rotatingGlassVoxels := rotatingGlassVoxels st @ [v]\<rparr>
         else st\<lparr>solidVoxels := solidVoxels st @ [v]\<rparr>)"

definition addTri ::
  "MathLib \<Rightarrow> real \<Rightarrow> real \<Rightarrow> real \<Rightarrow> string \<Rightarrow> string \<Rightarrow> NeedleVoxels \<Rightarrow> NeedleVoxels" where
  "addTri M x y z color type st =
     foldl (\<lambda>st angle. case rotatePoint M x z angle of (px, pz) \<Rightarrow> add px y pz color type st)
       st [0, 120, 240]"

definition addHex ::
  "MathLib \<Rightarrow> real \<Rightarrow> real \<Rightarrow> real \<Rightarrow> string \<Rightarrow> string \<Rightarrow> NeedleVoxels \<Rightarrow> NeedleVoxels" where
  "addHex M x y z color type st =
     foldl (\<lambda>st i. case rotatePoint M x z (real i * 60) of (px, pz) \<Rightarrow> add px y pz color type st)
       st [0 ..< 6]"

text \<open>Pushing a list of voxels to the list that \<open>add\<close> selects for a type.\<close>

definition emit :: "string \<Rightarrow> Voxel list \<Rightarrow> NeedleVoxels \<Rightarrow> NeedleVoxels" where
  "emit type vs st =
     (if type = ''glass'' then st\<lparr>glassVoxels := glassVoxels st @ vs\<rparr>
      else if type = ''rotating'' then st\<lparr>rotatingVoxels := rotatingVoxels st @ vs\<rparr>
      else if type = ''rotatingGlass'' then st\<lparr>rotatingGlassVoxels := rotatingGlassVoxels st @ vs\<rparr>
      else st\<lparr>solidVoxels := solidVoxels st @ vs\<rparr>)"

text \<open>The voxel \<open>add\<close> makes of what \<open>rotatePoint\<close> returns for the point \<open>(x, y, z)\<close>
  and an angle: every coordinate is rounded.\<close>

definition rounded_voxel :: "MathLib \<Rightarrow> real \<Rightarrow> real \<Rightarrow> real \<Rightarrow> real \<Rightarrow> string \<Rightarrow> Voxel" where
  "rounded_voxel M x y z angleDeg color =
     \<lparr>vox_x = Math_round (fst (rotatePoint M x z angleDeg)),
      vox_y = Math_round y,
      vox_z = Math_round (snd (rotatePoint M x z angleDeg)),
      vox_color = color\<rparr>"

definition no_voxels :: NeedleVoxels where
  "no_voxels = \<lparr>solidVoxels = [], glassVoxels = [], rotatingVoxels = [], rotatingGlassVoxels = []\<rparr>"

text \<open>The position of a voxel, and the point \<open>(x, y, z)\<close> turned by an angle about the
  vertical axis.\<close>

definition vox_pos :: "Voxel \<Rightarrow> real \<times> real \<times> real" where
  "vox_pos v = (vox_x v, vox_y v, vox_z v)"

definition rotated :: "MathLib \<Rightarrow> real \<Rightarrow> real \<Rightarrow> real \<Rightarrow> real \<Rightarrow> real \<times> real \<times> real" where
  "rotated M x y z angleDeg =
     (fst (rotatePoint M x z angleDeg), y, snd (rotatePoint M x z angleDeg))"

section \<open>Elevator\<close>

datatype ElevatorMode = mode_wait | mode_up | mode_down

text \<open>
  \<open>el_y\<close> to \<open>el_waitTime\<close> are the fields of \<open>this.state\<close>; \<open>carGroup_y\<close> is
  \<open>this.carGroup.position.y\<close> and \<open>soundDummy\<close> the position of the sound anchor.
\<close>

record Elevator =
  el_angle :: real
  el_speedOffset :: real
  el_y :: real
  el_targetY :: real
  el_velocity :: real
  el_mode :: ElevatorMode
  el_waitTime :: real
  carGroup_y :: real
  soundDummy :: "real \<times> real \<times> real"

text \<open>\<open>rnd\<close> is the value \<open>Math.random()\<close> returns, a number in \<open>[0, 1)\<close>.\<close>

definition Elevator_constructor :: "real \<Rightarrow> real \<Rightarrow> real \<Rightarrow> Elevator" where
  "Elevator_constructor angle speedOffset rnd =
     \<lparr>el_angle = angle, el_speedOffset = speedOffset,
      el_y = 10, el_targetY = 415, el_velocity = 0, el_mode = mode_wait,
      el_waitTime = rnd * 5 + speedOffset,
      carGroup_y = 0, soundDummy = (0, 0, 0)\<rparr>"

text \<open>
  The moving branch of \<open>update\<close>, in two parts. \<open>next_velocity\<close> is \<open>s.velocity\<close> after
  the acceleration statement and the damping statement; \<open>ends_move\<close> is the test that
  follows them: the distance to the target is below 1, or the velocity now points away
  from the target.
\<close>

definition next_velocity :: "real \<Rightarrow> Elevator \<Rightarrow> real" where
  "next_velocity delta s =
     (let MAX_SPEED = 15;
          ACCEL = 10;
          dist = el_targetY s - el_y s;
          dir = Math_sign dist;
          v1 = (if \<bar>el_velocity s\<bar> < MAX_SPEED then el_velocity s + dir * ACCEL * delta
                else el_velocity s)
      in if \<bar>dist\<bar> < 50 then v1 * 0.95 else v1)"

definition ends_move :: "real \<Rightarrow> Elevator \<Rightarrow> bool" where
  "ends_move delta s =
     (let dist = el_targetY s - el_y s;
          dir = Math_sign dist;
          v = next_velocity delta s
      in \<bar>dist\<bar> < 1 \<or> (dir > 0 \<and> v < 0) \<or> (dir < 0 \<and> v > 0))"

definition Elevator_update :: "MathLib \<Rightarrow> real \<Rightarrow> real \<Rightarrow> Elevator \<Rightarrow> Elevator" where
  "Elevator_update M delta rnd s =
     (let STOP_Y_TOP = 415;
          STOP_Y_BOT = 10;
          s' =
            (if el_mode s = mode_wait then
               (let s1 = s\<lparr>el_waitTime := el_waitTime s - delta\<rparr>
                in if el_waitTime s1 \<le> 0 then
                     (if el_y s1 < 100 then s1\<lparr>el_mode := mode_up, el_targetY := STOP_Y_TOP\<rparr>
                      else s1\<lparr>el_mode := mode_down, el_targetY := STOP_Y_BOT\<rparr>)
                   else s1)
             else
               (if ends_move delta s
                then s\<lparr>el_y := el_targetY s, el_velocity := 0, el_mode := mode_wait,
                       el_waitTime := 3 + rnd * 5\<rparr>
                else s\<lparr>el_velocity := next_velocity delta s,
                       el_y := el_y s + next_velocity delta s * delta\<rparr>));
          p = rotatePoint M 11 0 (el_angle s')
      in s'\<lparr>carGroup_y := el_y s', soundDummy := (fst p, el_y s' + 3, snd p)\<rparr>)"

text \<open>A run of frames: each frame supplies its delta and the random number it may draw.\<close>

definition Elevator_run :: "MathLib \<Rightarrow> (real \<times> real) list \<Rightarrow> Elevator \<Rightarrow> Elevator" where
  "Elevator_run M fs s = foldl (\<lambda>s f. Elevator_update M (fst f) (snd f) s) s fs"

text \<open>
  What holds of every state an elevator reaches: it waits at one of the two stops with
  no velocity, goes up to the top stop, or goes down to the bottom stop.
\<close>

definition el_inv :: "Elevator \<Rightarrow> bool" where
  "el_inv s \<longleftrightarrow>
     (case el_mode s of
        mode_wait \<Rightarrow> (el_y s = 10 \<or> el_y s = 415) \<and> el_velocity s = 0
      | mode_up \<Rightarrow> el_targetY s = 415
      | mode_down \<Rightarrow> el_targetY s = 10)"

section \<open>NewsHelicopter\<close>

text \<open>
  \<open>h_position\<close> and \<open>h_rotation\<close> belong to \<open>this.group\<close>, \<open>h_bodyRotation\<close> to \<open>this.body\<close>;
  \<open>h_soundVolume\<close> is \<open>None\<close> when there is no \<open>this.sound\<close>; \<open>h_gimbalTarget\<close> is the
  target of the last \<open>this.gimbal.lookAt\<close>.
\<close>

record NewsHelicopter =
  h_position :: vec
  h_landingPos :: vec
  h_rotation :: vec
  h_bodyRotation :: vec
  h_isManual :: bool
  h_velocity :: vec
  h_angularVelocity :: jsval
  h_rotorSpeed :: jsval
  h_targetRotorSpeed :: jsval
  h_mainRotor_y :: jsval
  h_tailRotor_x :: jsval
  h_soundVolume :: "jsval option"
  h_gimbalTarget :: "vec option"

definition zero_vec :: vec where
  "zero_vec = Vector3 (Num 0) (Num 0) (Num 0)"

text \<open>\<open>landingPadPos\<close> is optional; \<open>hasSound\<close> tells whether the audio service gave a
  sound (created with volume 0; the tail rotor group starts turned by \<open>pi / 2\<close> about z,
  its x rotation is 0).\<close>

definition NewsHelicopter_constructor :: "vec option \<Rightarrow> bool \<Rightarrow> NewsHelicopter" where
  "NewsHelicopter_constructor landingPadPos hasSound =
     (let lp = (case landingPadPos of None \<Rightarrow> zero_vec | Some p \<Rightarrow> p)
      in \<lparr>h_position = lp, h_landingPos = lp, h_rotation = zero_vec,
          h_bodyRotation = zero_vec, h_isManual = False, h_velocity = zero_vec,
          h_angularVelocity = Num 0, h_rotorSpeed = Num 0, h_targetRotorSpeed = Num 0,
          h_mainRotor_y = Num 0, h_tailRotor_x = Num 0,
          h_soundVolume = (if hasSound then Some (Num 0) else None),
          h_gimbalTarget = None\<rparr>)"

text \<open>
  \<open>controls\<close> stands for \<open>updateHelicopterControls\<close>, the gamepad-driven flight step of the
  manual mode; it is a parameter, so every statement below holds for any flight step.
  In the parked branch the body rotation has just been reset, so the gimbal looks along
  the unit vector of \<open>(0, -1, 3)\<close>, 200 units from the landing position.
\<close>

definition NewsHelicopter_update ::
  "(jsval \<Rightarrow> NewsHelicopter \<Rightarrow> NewsHelicopter) \<Rightarrow> jsval \<Rightarrow> NewsHelicopter \<Rightarrow> NewsHelicopter" where
  "NewsHelicopter_update controls delta s =
     (let s1 = (if jlt (h_rotorSpeed s) (h_targetRotorSpeed s)
                then s\<lparr>h_rotorSpeed := jadd (h_rotorSpeed s) (jmul delta (Num 10))\<rparr>
                else if jlt (h_targetRotorSpeed s) (h_rotorSpeed s)
                then s\<lparr>h_rotorSpeed := jsub (h_rotorSpeed s) (jmul delta (Num 5))\<rparr>
                else s);
          s2 = s1\<lparr>h_mainRotor_y :=
                    jsub (h_mainRotor_y s1) (jmul (jmul (h_rotorSpeed s1) delta) (Num 20)),
                  h_tailRotor_x :=
                    jsub (h_tailRotor_x s1) (jmul (jmul (h_rotorSpeed s1) delta) (Num 30))\<rparr>;
          s3 = (case h_soundVolume s2 of
                  None \<Rightarrow> s2
                | Some _ \<Rightarrow>
                    s2\<lparr>h_soundVolume :=
                         Some (jmin (Num 1.0) (jmul (h_rotorSpeed s2) (Num (1 / 5))))\<rparr>)
      in if h_isManual s3 then
           controls delta (s3\<lparr>h_targetRotorSpeed := Num 20\<rparr>)
         else
           (let s4 = s3\<lparr>h_targetRotorSpeed := Num 0,
                        h_position := h_landingPos s3,
                        h_rotation := zero_vec,
                        h_bodyRotation := zero_vec,
                        h_velocity := zero_vec,
                        h_angularVelocity := Num 0\<rparr>;
                forward = Vector3 (Num 0) (Num (- 200 / sqrt 10)) (Num (600 / sqrt 10));
                targetWorld = vadd (h_position s4) forward
            in s4\<lparr>h_gimbalTarget := Some targetWorld\<rparr>))"

definition NewsHelicopter_run ::
  "(jsval \<Rightarrow> NewsHelicopter \<Rightarrow> NewsHelicopter) \<Rightarrow> jsval list \<Rightarrow> NewsHelicopter \<Rightarrow> NewsHelicopter" where
  "NewsHelicopter_run controls ds s = foldl (\<lambda>s d. NewsHelicopter_update controls d s) s ds"

text \<open>What the parked helicopter shows: at the landing position, no velocity, no angular
  velocity, rotor target 0.\<close>

definition parked_at :: "vec \<Rightarrow> NewsHelicopter \<Rightarrow> bool" where
  "parked_at lp s \<longleftrightarrow>
     h_position s = lp \<and> h_landingPos s = lp \<and> h_velocity s = zero_vec \<and>
     h_angularVelocity s = Num 0 \<and> h_targetRotorSpeed s = Num 0 \<and> \<not> h_isManual s"

section \<open>Properties\<close>

text \<open>
  C10. \<open>Train.update\<close> called with \<open>delta = NaN\<close> (or with a delta that \<open>isNaN\<close> takes for
  one) returns at once: the whole train, that is progress, direction, state, stop timer
  and every car transform, is what it was before the call.
\<close>

theorem Train_update_NaN_unchanged:
  "Train_update co NaN s = s \<and> Train_update co Undefined s = s"
  by (simp add: Train_update_def)

subsection \<open>Train: the kinematic fields and the car offsets\<close>

lemma updateCar_offset: "offset (updateCar c p car) = offset car"
  by (simp add: updateCar_def Let_def split: option.splits)

lemma updateCarPositions_kin:
  "progress (updateCarPositions co s) = progress s"
  "speed (updateCarPositions co s) = speed s"
  "direction (updateCarPositions co s) = direction s"
  "state (updateCarPositions co s) = state s"
  "stopTimer (updateCarPositions co s) = stopTimer s"
  by (simp_all add: updateCarPositions_def split: option.splits)

lemma updateCarPositions_offsets:
  "map offset (cars (updateCarPositions co s)) = map offset (cars s)"
  by (simp add: updateCarPositions_def updateCar_offset split: option.splits)

lemma Train_update_offsets:
  "map offset (cars (Train_update co delta s)) = map offset (cars s)"
  by (cases delta) (simp_all add: Train_update_def Let_def updateCarPositions_offsets)


lemma Train_update_in_bounds: "in_bounds s \<Longrightarrow> in_bounds (Train_update co delta s)"
  by (cases delta)
     (simp_all add: Train_update_def Let_def updateCarPositions_kin in_bounds_def
        TRAIN_SPAN_def TRACK_BUFFER_def TRAIN_LENGTH_RATIO_def CAR_GAP_def)

lemma Train_constructor_in_bounds: "in_bounds (Train_constructor cfg co)"
  by (simp add: Train_constructor_def Let_def updateCarPositions_kin in_bounds_def
        TRAIN_SPAN_def TRACK_BUFFER_def TRAIN_LENGTH_RATIO_def CAR_GAP_def)

lemma Train_constructor_offsets:
  "map offset (cars (Train_constructor cfg co)) =
     map (\<lambda>i. real i * (TRAIN_LENGTH_RATIO + CAR_GAP)) [0, 1, 2, 3]"
  by (simp add: Train_constructor_def Let_def updateCarPositions_offsets newCar_def)

lemma Train_run_in_bounds: "in_bounds s \<Longrightarrow> in_bounds (Train_run co ds s)"
  unfolding Train_run_def
  by (induction ds arbitrary: s) (simp_all add: Train_update_in_bounds)

lemma Train_run_offsets: "map offset (cars (Train_run co ds s)) = map offset (cars s)"
  unfolding Train_run_def
  by (induction ds arbitrary: s) (simp_all add: Train_update_offsets)


text \<open>
  C1. Train span safety. Whatever the configuration and whatever the sequence of deltas,
  after the constructor and any number of \<open>update\<close> calls each of the four car slots
  \<open>i = 0..3\<close>, with offset \<open>i * (TRAIN_LENGTH_RATIO + CAR_GAP)\<close>, has its parameter
  \<open>progress - offset\<close> within \<open>[TRACK_BUFFER, 1 - TRACK_BUFFER]\<close>; the safety clamp to
  \<open>[0.0001, 0.9999]\<close> leaves it as it is, so that is the parameter the curve is asked for.
\<close>

theorem train_span_safety:
  "i < 4 \<Longrightarrow>
   (let s = Train_run co ds (Train_constructor cfg co);
        t = progress s - real i * (TRAIN_LENGTH_RATIO + CAR_GAP)
    in length (cars s) = 4 \<and> offset (cars s ! i) = real i * (TRAIN_LENGTH_RATIO + CAR_GAP)
       \<and> TRACK_BUFFER \<le> t \<and> t \<le> 1 - TRACK_BUFFER
       \<and> max 0.0001 (min 0.9999 t) = t)"
proof -
  assume i: "i < 4"
  let ?s = "Train_run co ds (Train_constructor cfg co)"
  let ?g = "TRAIN_LENGTH_RATIO + CAR_GAP"
  have off: "map offset (cars ?s) = map (\<lambda>i. real i * ?g) [0, 1, 2, 3]"
    by (simp only: Train_run_offsets Train_constructor_offsets)
  have len: "length (cars ?s) = 4"
    using arg_cong [OF off, of length] by simp
  have "offset (cars ?s ! i) = map offset (cars ?s) ! i"
    using i len by simp
  also have "\<dots> = real i * ?g"
    using i unfolding off by (auto simp: less_Suc_eq numeral_eq_Suc)
  finally have oi: "offset (cars ?s ! i) = real i * ?g" .
  have b: "in_bounds ?s"
    by (rule Train_run_in_bounds [OF Train_constructor_in_bounds])
  have ri: "real i \<le> 3" using i by simp
  have t: "TRACK_BUFFER \<le> progress ?s - real i * ?g \<and> progress ?s - real i * ?g \<le> 1 - TRACK_BUFFER"
    using b ri
    by (simp add: in_bounds_def TRAIN_SPAN_def TRACK_BUFFER_def TRAIN_LENGTH_RATIO_def CAR_GAP_def)
  then have "max 0.0001 (min 0.9999 (progress ?s - real i * ?g)) = progress ?s - real i * ?g"
    by (simp add: TRACK_BUFFER_def)
  with t len oi show ?thesis by (simp add: Let_def)
qed

theorem train_span_safety_witness:
  "(3::nat) < 4 \<and>
   TRACK_BUFFER \<le> progress (Train_run None [Num 200, NaN, Num 1] (Train_constructor blueTrain_config None))
                    - real (3::nat) * (TRAIN_LENGTH_RATIO + CAR_GAP)"
  using train_span_safety [of 3 None "[Num 200, NaN, Num 1]" blueTrain_config]
  by (simp add: Let_def)

text \<open>
  What the test of \<open>updateCarPositions\<close> does reject: when \<open>getPointAt\<close> or
  \<open>getTangentAt\<close> returns a falsy value or an object whose \<open>x\<close> is not of type number,
  the car is left exactly as it was for that frame, in the car update itself and as a
  slot of the train.
\<close>

lemma updateCar_skips_non_numeric:
  "(\<not> numeric_x (getPointAt c (max 0.0001 (min 0.9999 (p - offset car))))
    \<or> \<not> numeric_x (getTangentAt c (max 0.0001 (min 0.9999 (p - offset car))))
    \<longrightarrow> updateCar c p car = car)
   \<and> (i < length (cars s)
      \<and> (\<not> numeric_x (getPointAt c (max 0.0001 (min 0.9999 (progress s - offset (cars s ! i)))))
         \<or> \<not> numeric_x (getTangentAt c (max 0.0001 (min 0.9999 (progress s - offset (cars s ! i))))))
      \<longrightarrow> cars (updateCarPositions (Some c) s) ! i = cars s ! i)"
proof -
  have one: "updateCar c q k = k"
    if "\<not> numeric_x (getPointAt c (max 0.0001 (min 0.9999 (q - offset k))))
        \<or> \<not> numeric_x (getTangentAt c (max 0.0001 (min 0.9999 (q - offset k))))"
    for q k
    using that by (auto simp: updateCar_def Let_def split: option.splits)
  have "cars (updateCarPositions (Some c) s) ! i = updateCar c (progress s) (cars s ! i)"
    if "i < length (cars s)"
    using that by (simp add: updateCarPositions_def)
  with one show ?thesis by auto
qed

text \<open>
  C3 fails on the code. The curve \<open>nan_curve\<close> returns the point \<open>(NaN, NaN, NaN)\<close> and
  the tangent \<open>(0, 0, 1)\<close> at every parameter. The test
  \<open>typeof position.x === 'number'\<close> is true of \<open>NaN\<close>, so the update is not skipped: the
  car, which stood at \<open>(0, 0, 0)\<close>, gets the position \<open>(NaN, NaN, NaN)\<close>, and the look
  target, the sum of that point and the tangent, is \<open>(NaN, NaN, NaN)\<close> and is passed to
  \<open>lookAt\<close>. The same holds of all four cars of a train constructed on this curve.
\<close>

theorem updateCar_copies_NaN:
  "getPointAt nan_curve (max 0.0001 (min 0.9999 (0.5 - offset (newCar HEAD 0))))
     = Some (Vector3 NaN NaN NaN)
   \<and> position (newCar HEAD 0) = Vector3 (Num 0) (Num 0) (Num 0)
   \<and> position (updateCar nan_curve 0.5 (newCar HEAD 0)) = Vector3 NaN NaN NaN
   \<and> facing (updateCar nan_curve 0.5 (newCar HEAD 0)) = Some (Vector3 NaN NaN NaN)
   \<and> map position (cars (Train_constructor redTrain_config (Some nan_curve)))
       = [Vector3 NaN NaN NaN, Vector3 NaN NaN NaN, Vector3 NaN NaN NaN, Vector3 NaN NaN NaN]"
  by (simp add: updateCar_def nan_curve_def newCar_def Let_def Train_constructor_def
        updateCarPositions_def redTrain_config_def)

subsection \<open>Train: station stops\<close>























subsection \<open>createSteppedLobe\<close>

text \<open>A \<open>Map\<close> has one entry per key: the sweep builds a grid with distinct keys.\<close>

lemma grid_set_map_fst:
  "map fst (grid_set k v g) = (if k \<in> set (map fst g) then map fst g else map fst g @ [k])"
proof (induction g)
  case Nil
  then show ?case by simp
next
  case (Cons e g)
  obtain k' v' where e: "e = (k', v')" by (cases e) auto
  show ?case
  proof (cases "k' = k")
    case True
    then show ?thesis by (simp add: e)
  next
    case False
    then show ?thesis using Cons by (simp add: e) 
  qed
qed

lemma grid_set_distinct: "distinct (map fst g) \<Longrightarrow> distinct (map fst (grid_set k v g))"
  by (simp add: grid_set_map_fst)

lemma lobe_cell_distinct:
  "distinct (map fst g) \<Longrightarrow> distinct (map fst (lobe_cell center dims shapeFn exclusionFn g cell))"
  by (simp add: lobe_cell_def Let_def grid_set_distinct split: prod.splits)

lemma foldl_lobe_cell_distinct:
  "distinct (map fst g) \<Longrightarrow>
   distinct (map fst (foldl (lobe_cell center dims shapeFn exclusionFn) g cells))"
  by (induction cells arbitrary: g) (simp_all add: lobe_cell_distinct)

lemma build_grid_distinct: "distinct (map fst (build_grid center dims shapeFn exclusionFn))"
  unfolding build_grid_def by (rule foldl_lobe_cell_distinct) simp


lemma boundary_entries_set:
  "set (boundary_entries g) = {e \<in> set g. \<exists>n \<in> set (neighbors (fst e)). n \<notin> fst ` set g}"
  by (auto simp: boundary_entries_def grid_has_def list_ex_iff)

lemma card_cube_keys: "card (cube_keys a b c N) = N ^ 3"
  by (simp add: cube_keys_def card_cartesian_product power3_eq_cube)

lemma finite_cube_keys: "finite (cube_keys a b c N)"
  by (simp add: cube_keys_def)

lemma interior_subset:
  "2 \<le> N \<Longrightarrow> cube_keys (a + 1) (b + 1) (c + 1) (N - 2) \<subseteq> cube_keys a b c N"
  by (auto simp: cube_keys_def of_nat_diff)

lemma neighbors_in_cube:
  assumes "2 \<le> N" and "(x, y, z) \<in> cube_keys a b c N"
  shows "(\<forall>n \<in> set (neighbors (x, y, z)). n \<in> cube_keys a b c N)
         \<longleftrightarrow> (x, y, z) \<in> cube_keys (a + 1) (b + 1) (c + 1) (N - 2)"
proof -
  have i: "int (N - 2) = int N - 2" using assms(1) by (simp add: of_nat_diff)
  show ?thesis
    using assms(2) unfolding neighbors_def cube_keys_def i
    by simp linarith
qed

lemma cube_boundary_keys:
  assumes "2 \<le> N"
  shows "{k \<in> cube_keys a b c N. \<exists>n \<in> set (neighbors k). n \<notin> cube_keys a b c N}
         = cube_keys a b c N - cube_keys (a + 1) (b + 1) (c + 1) (N - 2)"
proof (rule set_eqI)
  fix k :: key
  obtain x y z where k: "k = (x, y, z)" by (cases k) auto
  show "k \<in> {k \<in> cube_keys a b c N. \<exists>n \<in> set (neighbors k). n \<notin> cube_keys a b c N}
        \<longleftrightarrow> k \<in> cube_keys a b c N - cube_keys (a + 1) (b + 1) (c + 1) (N - 2)"
    using neighbors_in_cube [OF assms, of x y z a b c] unfolding k by blast
qed

lemma cube_shell_count:
  fixes N :: nat
  assumes "2 \<le> N"
  shows "N ^ 3 - (N - 2) ^ 3 = 6 * (N - 2)\<^sup>2 + 12 * (N - 2) + 8"
proof -
  define M where "M = N - 2"
  have N: "N = M + 2" using assms by (simp add: M_def)
  show ?thesis
    unfolding N by (simp add: power3_eq_cube power2_eq_square algebra_simps)
qed

lemma length_boundary_entries:
  assumes d: "distinct (map fst g)"
  shows "length (boundary_entries g)
         = card {k \<in> fst ` set g. \<exists>n \<in> set (neighbors k). n \<notin> fst ` set g}"
proof -
  have dg: "distinct g" using d by (simp add: distinct_map)
  have inj: "inj_on fst (set g)" using d by (simp add: distinct_map)
  have "distinct (boundary_entries g)"
    using dg by (simp add: boundary_entries_def)
  then have "length (boundary_entries g) = card (set (boundary_entries g))"
    by (simp add: distinct_card)
  also have "\<dots> = card (fst ` set (boundary_entries g))"
    by (rule card_image [symmetric]) (rule inj_on_subset [OF inj], auto simp: boundary_entries_set)
  also have "fst ` set (boundary_entries g)
             = {k \<in> fst ` set g. \<exists>n \<in> set (neighbors k). n \<notin> fst ` set g}"
    by (auto simp: boundary_entries_set) force
  finally show ?thesis .
qed

text \<open>
  C2. Shell extraction. The boundary extraction keeps exactly the entries with at least
  one of the six axis-aligned neighbours absent from the grid, and drops every entry whose
  six neighbours are all present. For a grid whose keys are a solid cube of side \<open>N \<ge> 3\<close>
  it keeps exactly \<open>6 (N - 2)\<^sup>2 + 12 (N - 2) + 8\<close> voxels.
\<close>

theorem shell_extraction_cube:
  assumes "distinct (map fst g)" and "fst ` set g = cube_keys a b c N" and "3 \<le> N"
  shows "length (boundary_voxels g) = 6 * (N - 2)\<^sup>2 + 12 * (N - 2) + 8
       \<and> boundary_voxels g = map snd (boundary_entries g)
       \<and> set (boundary_entries g)
           = {e \<in> set g. \<exists>n \<in> set (neighbors (fst e)). n \<notin> fst ` set g}
       \<and> (\<forall>e \<in> set g. (\<forall>n \<in> set (neighbors (fst e)). n \<in> fst ` set g)
              \<longrightarrow> e \<notin> set (boundary_entries g))"
proof -
  have N2: "2 \<le> N" using assms(3) by simp
  have "length (boundary_voxels g) = length (boundary_entries g)"
    by (simp add: boundary_voxels_def)
  also have "\<dots> = card (cube_keys a b c N - cube_keys (a + 1) (b + 1) (c + 1) (N - 2))"
    unfolding length_boundary_entries [OF assms(1)] assms(2) cube_boundary_keys [OF N2] ..
  also have "\<dots> = N ^ 3 - (N - 2) ^ 3"
    using card_Diff_subset [OF finite_cube_keys interior_subset [OF N2], of "a" "b" "c"]
    by (simp add: card_cube_keys)
  also have "\<dots> = 6 * (N - 2)\<^sup>2 + 12 * (N - 2) + 8"
    by (rule cube_shell_count [OF N2])
  finally have "length (boundary_voxels g) = 6 * (N - 2)\<^sup>2 + 12 * (N - 2) + 8" .
  then show ?thesis
    by (auto simp: boundary_voxels_def boundary_entries_set)
qed

lemma grid_index_values:
  "grid_index (- (5 / 4)) = - 1" "grid_index 0 = 0" "grid_index (5 / 4) = 1"
  "grid_index (5 / 2) = 2"
  by (simp_all add: grid_index_def voxelSize_def)

lemma cube3_keys:
  "map fst cube3_grid =
     [(-1, 0, -1), (-1, 0, 0), (-1, 0, 1), (0, 0, -1), (0, 0, 0), (0, 0, 1),
      (1, 0, -1), (1, 0, 0), (1, 0, 1),
      (-1, 1, -1), (-1, 1, 0), (-1, 1, 1), (0, 1, -1), (0, 1, 0), (0, 1, 1),
      (1, 1, -1), (1, 1, 0), (1, 1, 1),
      (-1, 2, -1), (-1, 2, 0), (-1, 2, 1), (0, 2, -1), (0, 2, 0), (0, 2, 1),
      (1, 2, -1), (1, 2, 0), (1, 2, 1)]"
  by (simp add: cube3_grid_def build_grid_def sweep_cells_def voxelSize_def lobe_cell_def
        grid_index_values)

lemma cube3_is_cube: "fst ` set cube3_grid = cube_keys (- 1) 0 (- 1) 3"
proof -
  have "fst ` set cube3_grid = set (map fst cube3_grid)" by simp
  also have "\<dots> = cube_keys (- 1) 0 (- 1) 3"
    unfolding cube3_keys by code_simp
  finally show ?thesis .
qed

theorem shell_extraction_cube_witness:
  "distinct (map fst cube3_grid) \<and> fst ` set cube3_grid = cube_keys (- 1) 0 (- 1) 3
   \<and> (3::nat) \<le> 3 \<and> length cube3_grid = 27 \<and> length (boundary_voxels cube3_grid) = 26"
proof -
  have d: "distinct (map fst cube3_grid)"
    unfolding cube3_grid_def by (rule build_grid_distinct)
  have l: "length cube3_grid = 27"
    using arg_cong [OF cube3_keys, of length] by simp
  have "length (boundary_voxels cube3_grid) = 6 * (3 - 2)\<^sup>2 + 12 * (3 - 2) + 8"
    using shell_extraction_cube [OF d cube3_is_cube, THEN conjunct1] by simp
  then have n: "length (boundary_voxels cube3_grid) = 26" by simp
  have t: "(3::nat) \<le> 3" by simp
  from d cube3_is_cube t l n show ?thesis by blast
qed

declare loop_le.simps [simp del] loop_lt.simps [simp del]























subsection \<open>TrafficCar and HeroTaxi\<close>

text \<open>
  C5 fails on the code. A car of the traffic system (progress 0.5, speed 60) and the hero
  taxi (progress 0.85, speed 70), updated with a delta of 60 seconds: the progress is
  wrapped by one subtraction only, so \<open>getPointAt\<close> is called with 1.3 and with 1.95.
\<close>

theorem follower_samples_out_of_range:
  "TrafficCar_sampled 60 (TrafficCar_constructor 0.5 60) = [1.3, 0.305]
   \<and> HeroTaxi_sampled 60 HeroTaxi_constructor = [1.95, 0.955]"
  by (simp add: TrafficCar_sampled_def TrafficCar_advance_def TrafficCar_constructor_def
        HeroTaxi_sampled_def HeroTaxi_advance_def HeroTaxi_constructor_def mod1_def Let_def)

text \<open>When the step is at most one lap, both parameters are in range.\<close>

lemma mod1_range: "0 \<le> a \<Longrightarrow> 0 \<le> mod1 a \<and> mod1 a < 1"
  unfolding mod1_def by (simp add: floor_le_iff) linarith

lemma TrafficCar_sampled_small_step:
  assumes "0 \<le> tc_progress s" and "tc_progress s \<le> 1"
    and "0 \<le> tc_speed s * delta * 0.0005" and "tc_speed s * delta * 0.0005 \<le> 1"
  shows "\<forall>t \<in> set (TrafficCar_sampled delta s). 0 \<le> t \<and> t \<le> 1"
proof -
  have p: "0 \<le> tc_progress (TrafficCar_advance delta s) \<and> tc_progress (TrafficCar_advance delta s) \<le> 1"
    using assms by (simp add: TrafficCar_advance_def Let_def)
  then have "0 \<le> tc_progress (TrafficCar_advance delta s) + 0.005" by simp
  from mod1_range [OF this] p show ?thesis
    by (simp add: TrafficCar_sampled_def Let_def)
qed


subsection \<open>NewsHelicopter\<close>

lemma NewsHelicopter_update_parked:
  assumes "\<not> h_isManual s"
  shows "parked_at (h_landingPos s) (NewsHelicopter_update controls delta s)"
  using assms
  by (simp add: NewsHelicopter_update_def parked_at_def Let_def split: option.splits)

lemma NewsHelicopter_run_parked:
  "parked_at lp s \<Longrightarrow> parked_at lp (NewsHelicopter_run controls ds s)"
proof (induction ds arbitrary: s)
  case Nil
  then show ?case by (simp add: NewsHelicopter_run_def)
next
  case (Cons d ds)
  have "\<not> h_isManual s" and "h_landingPos s = lp"
    using Cons.prems by (simp_all add: parked_at_def)
  then have "parked_at lp (NewsHelicopter_update controls d s)"
    using NewsHelicopter_update_parked [of s controls d] by simp
  from Cons.IH [OF this] show ?case by (simp add: NewsHelicopter_run_def)
qed

lemma NewsHelicopter_constructor_parked:
  "parked_at (case landingPadPos of None \<Rightarrow> zero_vec | Some p \<Rightarrow> p)
     (NewsHelicopter_constructor landingPadPos hasSound)"
  by (simp add: NewsHelicopter_constructor_def parked_at_def Let_def)


text \<open>
  C7. The parked helicopter (\<open>isManual = false\<close>). After any non-empty sequence of
  \<open>update(delta)\<close> calls, whatever the deltas (numbers, \<open>NaN\<close>, \<open>undefined\<close>) and whatever
  the state before, the group position is the stored landing position, the velocity is the
  zero vector, the angular velocity is 0 and the rotor target speed is 0; from the
  constructor on, the same holds after every sequence of updates, the empty one included.
\<close>

theorem helicopter_parked_every_frame:
  "(\<not> h_isManual s \<and> ds \<noteq> [] \<longrightarrow>
      (let s' = NewsHelicopter_run controls ds s in
         h_position s' = h_landingPos s \<and> h_velocity s' = Vector3 (Num 0) (Num 0) (Num 0) \<and>
         h_angularVelocity s' = Num 0 \<and> h_targetRotorSpeed s' = Num 0 \<and>
         \<not> h_isManual s' \<and> h_landingPos s' = h_landingPos s))
   \<and> (let s0 = NewsHelicopter_constructor landingPadPos hasSound;
           s' = NewsHelicopter_run controls ds s0 in
         h_position s' = h_landingPos s0 \<and> h_velocity s' = Vector3 (Num 0) (Num 0) (Num 0) \<and>
         h_angularVelocity s' = Num 0 \<and> h_targetRotorSpeed s' = Num 0 \<and>
         \<not> h_isManual s' \<and> h_landingPos s' = h_landingPos s0)"
proof (intro conjI impI)
  assume a: "\<not> h_isManual s \<and> ds \<noteq> []"
  then obtain d ds' where ds: "ds = d # ds'" by (cases ds) auto
  have "parked_at (h_landingPos s) (NewsHelicopter_update controls d s)"
    using a by (simp add: NewsHelicopter_update_parked)
  from NewsHelicopter_run_parked [OF this, of controls ds']
  have "parked_at (h_landingPos s) (NewsHelicopter_run controls ds s)"
    by (simp add: ds NewsHelicopter_run_def)
  then show "let s' = NewsHelicopter_run controls ds s in
         h_position s' = h_landingPos s \<and> h_velocity s' = Vector3 (Num 0) (Num 0) (Num 0) \<and>
         h_angularVelocity s' = Num 0 \<and> h_targetRotorSpeed s' = Num 0 \<and>
         \<not> h_isManual s' \<and> h_landingPos s' = h_landingPos s"
    by (simp add: parked_at_def zero_vec_def Let_def)
next
  let ?lp = "case landingPadPos of None \<Rightarrow> zero_vec | Some p \<Rightarrow> p"
  have lp: "h_landingPos (NewsHelicopter_constructor landingPadPos hasSound) = ?lp"
    by (simp add: NewsHelicopter_constructor_def Let_def)
  have "parked_at ?lp (NewsHelicopter_run controls ds (NewsHelicopter_constructor landingPadPos hasSound))"
    by (rule NewsHelicopter_run_parked [OF NewsHelicopter_constructor_parked])
  then show "let s0 = NewsHelicopter_constructor landingPadPos hasSound;
           s' = NewsHelicopter_run controls ds s0 in
         h_position s' = h_landingPos s0 \<and> h_velocity s' = Vector3 (Num 0) (Num 0) (Num 0) \<and>
         h_angularVelocity s' = Num 0 \<and> h_targetRotorSpeed s' = Num 0 \<and>
         \<not> h_isManual s' \<and> h_landingPos s' = h_landingPos s0"
    unfolding Let_def lp by (simp add: parked_at_def zero_vec_def)
qed

theorem helicopter_parked_every_frame_witness:
  "\<not> h_isManual (NewsHelicopter_constructor (Some (Vector3 (Num 3) (Num 40) (Num 7))) True)
   \<and> [Num 0.016, NaN, Num 120] \<noteq> []
   \<and> h_position (NewsHelicopter_run (\<lambda>d s. s) [Num 0.016, NaN, Num 120]
        (NewsHelicopter_constructor (Some (Vector3 (Num 3) (Num 40) (Num 7))) True))
      = Vector3 (Num 3) (Num 40) (Num 7)"
  using helicopter_parked_every_frame
    [of "NewsHelicopter_constructor (Some (Vector3 (Num 3) (Num 40) (Num 7))) True"
        "[Num 0.016, NaN, Num 120]" "\<lambda>d s. s"]
  by (simp add: Let_def NewsHelicopter_constructor_def)


subsection \<open>Symmetry helpers\<close>

lemma add_rotated:
  "(case rotatePoint M x z a of (px, pz) \<Rightarrow> add px y pz color type st)
     = emit type [rounded_voxel M x y z a color] st"
  by (simp add: add_def emit_def rounded_voxel_def split_beta)

lemma emit_emit: "emit type vs (emit type ws st) = emit type (ws @ vs) st"
  by (simp add: emit_def)

lemma upt_6: "[0 ..< 6] = [0, 1, 2, 3, 4, 5::nat]"
  by (simp add: upt_rec)

text \<open>In exact arithmetic \<open>rotatePoint\<close> is the rotation: it keeps the distance from the
  axis, and angles add up.\<close>

lemma rotatePoint_exact:
  "rotatePoint exact_math x z a =
     (x * cos (a * (pi / 180)) - z * sin (a * (pi / 180)),
      x * sin (a * (pi / 180)) + z * cos (a * (pi / 180)))"
  by (simp add: rotatePoint_def exact_math_def Let_def)

lemma rotation_norm:
  fixes c s x z :: real
  shows "(x * c - z * s)\<^sup>2 + (x * s + z * c)\<^sup>2 = (x\<^sup>2 + z\<^sup>2) * (s\<^sup>2 + c\<^sup>2)"
  by (simp add: power2_eq_square algebra_simps)

lemma rotatePoint_norm:
  "(fst (rotatePoint exact_math x z a))\<^sup>2 + (snd (rotatePoint exact_math x z a))\<^sup>2 = x\<^sup>2 + z\<^sup>2"
  unfolding rotatePoint_exact fst_conv snd_conv rotation_norm by simp

lemma rotation_compose:
  fixes ca sa cb sb x z :: real
  shows "(x * ca - z * sa) * cb - (x * sa + z * ca) * sb = x * (ca * cb - sa * sb) - z * (sa * cb + ca * sb)"
    and "(x * ca - z * sa) * sb + (x * sa + z * ca) * cb = x * (sa * cb + ca * sb) + z * (ca * cb - sa * sb)"
  by (simp_all add: algebra_simps)

lemma rotatePoint_add:
  "rotatePoint exact_math (fst (rotatePoint exact_math x z a)) (snd (rotatePoint exact_math x z a)) b
     = rotatePoint exact_math x z (a + b)"
proof -
  have e: "(a + b) * (pi / 180) = a * (pi / 180) + b * (pi / 180)"
    by (simp add: distrib_right)
  show ?thesis
    unfolding rotatePoint_exact fst_conv snd_conv e cos_add sin_add rotation_compose ..
qed

text \<open>
  The tie that the calls \<open>addHex(coreRad - 1, y, 0)\<close> of the core meet at 240 degrees: the
  exact product \<open>7 * cos (4 * pi / 3)\<close> is \<open>- 7 / 2\<close> and rounds to \<open>- 3\<close>; a library whose
  product is the double below it, \<open>- 3.500000000000003\<close>, gives the voxel \<open>- 4\<close>.
\<close>

lemma Math_round_tie:
  "Math_round (- 7 / 2) = - 3 \<and> Math_round (- 3.500000000000003) = - 4"
  by (simp add: Math_round_def)

lemma rounded_voxel_tie:
  assumes "fst (rotatePoint M 7 0 240) = - 3.500000000000003"
  shows "vox_x (rounded_voxel M 7 y 0 240 color) = - 4"
  using assms by (simp add: rounded_voxel_def Math_round_def)

lemma rounded_voxel_tie_exact:
  "vox_x (rounded_voxel exact_math 7 y 0 240 color) = - 3"
proof -
  have "(240::real) * (pi / 180) = pi + pi / 3" by simp
  then have "cos (240 * (pi / 180)) = - (1 / 2)"
    by (simp only: cos_periodic_pi2 cos_60) 
  then show ?thesis
    by (simp add: rounded_voxel_def rotatePoint_exact Math_round_def)
qed

text \<open>
  C9 (as amended). \<open>rotatePoint\<close> computes the rotation about the vertical axis by the
  angle in degrees, \<open>(x cos a - z sin a, x sin a + z cos a)\<close>, each operation rounded by
  the arithmetic in use; in exact arithmetic it is that rotation, which keeps
  \<open>x\<^sup>2 + z\<^sup>2\<close> and for which turning by \<open>a\<close> and then by \<open>b\<close> is turning by \<open>a + b\<close>.
  In every arithmetic \<open>addTri\<close> pushes exactly three voxels, for the angles 0, 120 and
  240, and \<open>addHex\<close> exactly six, for 0, 60, ..., 300, in this order, to the list of the
  given type. A voxel is not at the rotated point: its \<open>x\<close> and \<open>z\<close> are what
  \<open>rotatePoint\<close> returns, and its \<open>y\<close> the given height, each rounded to the nearest
  integer by \<open>add\<close>, halves upwards.
\<close>

theorem symmetry_helpers_rounded:
  "rotatePoint M x z a =
     (let rad = fl M (a * fl M (Math_PI M / 180))
      in (fl M (fl M (x * Math_cos M rad) - fl M (z * Math_sin M rad)),
          fl M (fl M (x * Math_sin M rad) + fl M (z * Math_cos M rad))))
   \<and> rotatePoint exact_math x z a =
       (x * cos (a * (pi / 180)) - z * sin (a * (pi / 180)),
        x * sin (a * (pi / 180)) + z * cos (a * (pi / 180)))
   \<and> addTri M x y z color type st =
       emit type [rounded_voxel M x y z 0 color, rounded_voxel M x y z 120 color,
                  rounded_voxel M x y z 240 color] st
   \<and> addHex M x y z color type st =
       emit type [rounded_voxel M x y z 0 color, rounded_voxel M x y z 60 color,
                  rounded_voxel M x y z 120 color, rounded_voxel M x y z 180 color,
                  rounded_voxel M x y z 240 color, rounded_voxel M x y z 300 color] st
   \<and> rounded_voxel M x y z a color =
       \<lparr>vox_x = Math_round (fst (rotatePoint M x z a)), vox_y = Math_round y,
        vox_z = Math_round (snd (rotatePoint M x z a)), vox_color = color\<rparr>
   \<and> (fst (rotatePoint exact_math x z a))\<^sup>2 + (snd (rotatePoint exact_math x z a))\<^sup>2 = x\<^sup>2 + z\<^sup>2
   \<and> rotatePoint exact_math (fst (rotatePoint exact_math x z a))
         (snd (rotatePoint exact_math x z a)) b
       = rotatePoint exact_math x z (a + b)"
proof (intro conjI)
  show "(fst (rotatePoint exact_math x z a))\<^sup>2 + (snd (rotatePoint exact_math x z a))\<^sup>2 = x\<^sup>2 + z\<^sup>2"
    by (rule rotatePoint_norm)
  show "rotatePoint exact_math (fst (rotatePoint exact_math x z a))
         (snd (rotatePoint exact_math x z a)) b
       = rotatePoint exact_math x z (a + b)"
    by (rule rotatePoint_add)
  show "rotatePoint M x z a =
     (let rad = fl M (a * fl M (Math_PI M / 180))
      in (fl M (fl M (x * Math_cos M rad) - fl M (z * Math_sin M rad)),
          fl M (fl M (x * Math_sin M rad) + fl M (z * Math_cos M rad))))"
    by (simp add: rotatePoint_def Let_def)
  show "rotatePoint exact_math x z a =
       (x * cos (a * (pi / 180)) - z * sin (a * (pi / 180)),
        x * sin (a * (pi / 180)) + z * cos (a * (pi / 180)))"
    by (rule rotatePoint_exact)
  show "addTri M x y z color type st =
       emit type [rounded_voxel M x y z 0 color, rounded_voxel M x y z 120 color,
                  rounded_voxel M x y z 240 color] st"
    unfolding addTri_def by (simp only: foldl.simps add_rotated emit_emit append.simps)
  show "addHex M x y z color type st =
       emit type [rounded_voxel M x y z 0 color, rounded_voxel M x y z 60 color,
                  rounded_voxel M x y z 120 color, rounded_voxel M x y z 180 color,
                  rounded_voxel M x y z 240 color, rounded_voxel M x y z 300 color] st"
    unfolding addHex_def upt_6
    by (simp only: foldl.simps add_rotated emit_emit append.simps) simp
  show "rounded_voxel M x y z a color =
       \<lparr>vox_x = Math_round (fst (rotatePoint M x z a)), vox_y = Math_round y,
        vox_z = Math_round (snd (rotatePoint M x z a)), vox_color = color\<rparr>"
    by (simp add: rounded_voxel_def)
qed

text \<open>
  C9 as stated fails: the voxels are not at the rotated points. The legs loop calls
  \<open>addTri(r + dr, y, -colOffset + dz, LEG_WHITE)\<close>; at \<open>y = 325\<close>, where \<open>r\<close> is
  \<open>15 + 40 * 0.25\<^sup>2 = 17.5\<close>, the first of these calls is
  \<open>addTri(17.5, 325, -7, '#FFFFFF')\<close>. The point turned by 0 degrees is itself, and its
  voxel is at \<open>(18, 325, -7)\<close>.
\<close>

theorem addTri_not_at_rotated_point:
  "vox_pos (hd (solidVoxels (addTri exact_math (35 / 2) 325 (- 7) ''#FFFFFF'' ''solid'' no_voxels)))
     = (18, 325, - 7)
   \<and> rotated exact_math (35 / 2) 325 (- 7) 0 = (35 / 2, 325, - 7)
   \<and> map vox_pos (solidVoxels (addTri exact_math (35 / 2) 325 (- 7) ''#FFFFFF'' ''solid'' no_voxels))
     \<noteq> map (rotated exact_math (35 / 2) 325 (- 7)) [0, 120, 240]"
  by (simp add: addTri_def add_def rotatePoint_exact no_voxels_def vox_pos_def rotated_def
        Math_round_def)

text \<open>
  The same first voxel comes out of every arithmetic in which 0, 17.5 and \<open>- 7\<close> are
  numbers and the cosine and the sine of 0 are 1 and 0, as they are for the doubles.
\<close>

lemma rotatePoint_zero_angle:
  assumes "fl M 0 = 0" and "fl M x = x" and "fl M z = z"
    and "Math_cos M 0 = 1" and "Math_sin M 0 = 0"
  shows "rotatePoint M x z 0 = (x, z)"
  using assms by (simp add: rotatePoint_def Let_def)

lemma addTri_first_voxel:
  assumes "fl M 0 = 0" and "fl M (35 / 2) = 35 / 2" and "fl M (- 7) = - 7"
    and "Math_cos M 0 = 1" and "Math_sin M 0 = 0"
  shows "vox_pos (hd (solidVoxels (addTri M (35 / 2) 325 (- 7) color ''solid'' no_voxels)))
     = (18, 325, - 7)"
proof -
  have "rotatePoint M (35 / 2) (- 7) 0 = (35 / 2, - 7)"
    using assms by (rule rotatePoint_zero_angle)
  then show ?thesis
    by (simp add: addTri_def add_def no_voxels_def vox_pos_def Math_round_def split_beta)
qed

subsection \<open>Elevator\<close>

lemma Elevator_update_wait:
  assumes "el_mode s = mode_wait"
  shows "el_y (Elevator_update M delta rnd s) = el_y s"
    and "el_velocity (Elevator_update M delta rnd s) = el_velocity s"
    and "el_waitTime (Elevator_update M delta rnd s) = el_waitTime s - delta"
    and "el_mode (Elevator_update M delta rnd s) =
           (if el_waitTime s - delta \<le> 0
            then (if el_y s < 100 then mode_up else mode_down) else mode_wait)"
    and "el_targetY (Elevator_update M delta rnd s) =
           (if el_waitTime s - delta \<le> 0
            then (if el_y s < 100 then 415 else 10) else el_targetY s)"
  using assms by (simp_all add: Elevator_update_def Let_def)

lemma Elevator_update_moving:
  assumes "el_mode s \<noteq> mode_wait"
  shows "el_y (Elevator_update M delta rnd s) =
           (if ends_move delta s then el_targetY s else el_y s + next_velocity delta s * delta)"
    and "el_velocity (Elevator_update M delta rnd s) =
           (if ends_move delta s then 0 else next_velocity delta s)"
    and "el_mode (Elevator_update M delta rnd s) =
           (if ends_move delta s then mode_wait else el_mode s)"
    and "el_waitTime (Elevator_update M delta rnd s) =
           (if ends_move delta s then 3 + rnd * 5 else el_waitTime s)"
    and "el_targetY (Elevator_update M delta rnd s) = el_targetY s"
    and "carGroup_y (Elevator_update M delta rnd s) = el_y (Elevator_update M delta rnd s)"
  using assms by (simp_all add: Elevator_update_def Let_def)

lemma Elevator_update_arrive:
  assumes "el_mode s \<noteq> mode_wait" and "ends_move delta s"
  shows "el_y (Elevator_update M delta rnd s) = el_targetY s"
    and "el_velocity (Elevator_update M delta rnd s) = 0"
    and "el_mode (Elevator_update M delta rnd s) = mode_wait"
    and "el_waitTime (Elevator_update M delta rnd s) = 3 + rnd * 5"
    and "el_targetY (Elevator_update M delta rnd s) = el_targetY s"
    and "carGroup_y (Elevator_update M delta rnd s) = el_targetY s"
  using assms(2) by (simp_all add: Elevator_update_moving [OF assms(1)])

lemma Elevator_update_travel:
  assumes "el_mode s \<noteq> mode_wait" and "\<not> ends_move delta s"
  shows "el_y (Elevator_update M delta rnd s) = el_y s + next_velocity delta s * delta"
    and "el_velocity (Elevator_update M delta rnd s) = next_velocity delta s"
    and "el_mode (Elevator_update M delta rnd s) = el_mode s"
    and "el_targetY (Elevator_update M delta rnd s) = el_targetY s"
  using assms(2) by (simp_all add: Elevator_update_moving [OF assms(1)])

lemma Elevator_constructor_inv: "el_inv (Elevator_constructor angle speedOffset rnd)"
  by (simp add: el_inv_def Elevator_constructor_def)

lemma Elevator_update_inv:
  assumes "el_inv s"
  shows "el_inv (Elevator_update M delta rnd s)"
proof (cases "el_mode s = mode_wait")
  case True
  then show ?thesis
    using assms Elevator_update_wait [OF True, of M delta rnd]
    by (simp add: el_inv_def)
next
  case False
  show ?thesis
  proof (cases "ends_move delta s")
    case True
    show ?thesis
      using assms False Elevator_update_arrive [OF False True, of M rnd]
      by (cases "el_mode s") (simp_all add: el_inv_def)
  next
    case nm: False
    show ?thesis
      using assms False Elevator_update_travel [OF False nm, of M rnd]
      by (cases "el_mode s") (simp_all add: el_inv_def)
  qed
qed

lemma Elevator_run_inv: "el_inv s \<Longrightarrow> el_inv (Elevator_run M fs s)"
  unfolding Elevator_run_def
  by (induction fs arbitrary: s) (simp_all add: Elevator_update_inv)

lemma Elevator_run_Nil: "Elevator_run M [] s = s"
  by (simp add: Elevator_run_def)

lemma Elevator_run_Cons:
  "Elevator_run M (f # fs) s = Elevator_run M fs (Elevator_update M (fst f) (snd f) s)"
  by (simp add: Elevator_run_def)

lemma Elevator_run_Suc:
  "Elevator_run M (replicate (Suc k) f) s = Elevator_run M (replicate k f) (Elevator_update M (fst f) (snd f) s)"
  by (simp add: Elevator_run_def)

lemma Elevator_run_add:
  "Elevator_run M (replicate (a + b) f) s = Elevator_run M (replicate b f) (Elevator_run M (replicate a f) s)"
  by (simp add: Elevator_run_def replicate_add)

lemma next_velocity_up:
  assumes "0 < delta" and "delta \<le> 1 / 10"
    and "0 \<le> el_velocity s" and "el_velocity s \<le> 15 + 10 * delta"
    and "0 < el_targetY s - el_y s"
  shows "9.5 * delta \<le> next_velocity delta s" and "next_velocity delta s \<le> 15 + 10 * delta"
  using assms by (auto simp: next_velocity_def Math_sign_def Let_def)

lemma next_velocity_down:
  assumes "0 < delta" and "delta \<le> 1 / 10"
    and "el_velocity s \<le> 0" and "- (15 + 10 * delta) \<le> el_velocity s"
    and "el_targetY s - el_y s < 0"
  shows "next_velocity delta s \<le> - (9.5 * delta)" and "- (15 + 10 * delta) \<le> next_velocity delta s"
  using assms by (auto simp: next_velocity_def Math_sign_def Let_def)

lemma small_step:
  fixes delta v :: real
  assumes "0 < delta" and "delta \<le> 1 / 10" and "0 \<le> v" and "v \<le> 15 + 10 * delta"
  shows "v * delta \<le> 1.6"
proof -
  have "v * delta \<le> (15 + 10 * delta) * delta"
    by (rule mult_right_mono) (use assms in simp_all)
  also have "\<dots> = 15 * delta + 10 * (delta * delta)" by (simp add: algebra_simps)
  finally have a: "v * delta \<le> 15 * delta + 10 * (delta * delta)" .
  have "delta * delta \<le> (1 / 10) * (1 / 10)"
    by (rule mult_mono) (use assms in simp_all)
  with a assms(2) show ?thesis by simp
qed

lemma up_arrives_bounded:
  fixes delta rnd :: real
  assumes d: "0 < delta" "delta \<le> 1 / 10"
  shows "el_mode s = mode_up \<Longrightarrow> el_targetY s = 415 \<Longrightarrow>
         0 \<le> el_velocity s \<Longrightarrow> el_velocity s \<le> 15 + 10 * delta \<Longrightarrow>
         - 1 < 415 - el_y s \<Longrightarrow> 415 - el_y s < 1 + real k * (9.5 * delta * delta) \<Longrightarrow>
         \<exists>n>0. (\<forall>j<n. el_mode (Elevator_run M (replicate j (delta, rnd)) s) = mode_up)
              \<and> el_mode (Elevator_run M (replicate n (delta, rnd)) s) = mode_wait
              \<and> el_y (Elevator_run M (replicate n (delta, rnd)) s) = 415
              \<and> el_velocity (Elevator_run M (replicate n (delta, rnd)) s) = 0
              \<and> el_waitTime (Elevator_run M (replicate n (delta, rnd)) s) = 3 + rnd * 5"
proof (induction k arbitrary: s)
  case 0
  have m: "el_mode s \<noteq> mode_wait" using "0.prems"(1) by simp
  have "\<bar>el_targetY s - el_y s\<bar> < 1" using "0.prems"(2,5,6) by simp
  then have e: "ends_move delta s" by (simp add: ends_move_def Let_def)
  have "\<forall>j<Suc 0. el_mode (Elevator_run M (replicate j (delta, rnd)) s) = mode_up"
    using "0.prems"(1) by (simp add: Elevator_run_Nil)
  moreover have "el_mode (Elevator_run M (replicate (Suc 0) (delta, rnd)) s) = mode_wait"
    "el_y (Elevator_run M (replicate (Suc 0) (delta, rnd)) s) = 415"
    "el_velocity (Elevator_run M (replicate (Suc 0) (delta, rnd)) s) = 0"
    "el_waitTime (Elevator_run M (replicate (Suc 0) (delta, rnd)) s) = 3 + rnd * 5"
    using Elevator_update_arrive [OF m e, of M rnd] "0.prems"(2)
    by (simp_all add: Elevator_run_Cons Elevator_run_Nil)
  ultimately show ?case by blast
next
  case (Suc k)
  have m: "el_mode s \<noteq> mode_wait" using Suc.prems(1) by simp
  show ?case
  proof (cases "\<bar>el_targetY s - el_y s\<bar> < 1")
    case True
    then have e: "ends_move delta s" by (simp add: ends_move_def Let_def)
    have "\<forall>j<Suc 0. el_mode (Elevator_run M (replicate j (delta, rnd)) s) = mode_up"
      using Suc.prems(1) by (simp add: Elevator_run_Nil)
    moreover have "el_mode (Elevator_run M (replicate (Suc 0) (delta, rnd)) s) = mode_wait"
      "el_y (Elevator_run M (replicate (Suc 0) (delta, rnd)) s) = 415"
      "el_velocity (Elevator_run M (replicate (Suc 0) (delta, rnd)) s) = 0"
      "el_waitTime (Elevator_run M (replicate (Suc 0) (delta, rnd)) s) = 3 + rnd * 5"
      using Elevator_update_arrive [OF m e, of M rnd] Suc.prems(2)
      by (simp_all add: Elevator_run_Cons Elevator_run_Nil)
    ultimately show ?thesis by blast
  next
    case False
    then have far: "1 \<le> el_targetY s - el_y s" using Suc.prems(2,5) by simp
    then have pos: "0 < el_targetY s - el_y s" by simp
    note nv = next_velocity_up [OF d Suc.prems(3,4) pos]
    have nv0: "0 \<le> next_velocity delta s" using nv(1) d(1) by simp
    have ne: "\<not> ends_move delta s"
      using False pos nv0 by (simp add: ends_move_def Let_def Math_sign_def)
    let ?s1 = "Elevator_update M delta rnd s"
    note t = Elevator_update_travel [OF m ne, of M rnd]
    have step_hi: "next_velocity delta s * delta \<le> 1.6"
      by (rule small_step [OF d nv0 nv(2)])
    have step_lo: "9.5 * delta * delta \<le> next_velocity delta s * delta"
      by (rule mult_right_mono) (use nv(1) d(1) in simp_all)
    have a1: "- 1 < 415 - el_y ?s1"
      using far step_hi Suc.prems(2) by (simp add: t(1))
    have sk: "real (Suc k) * (9.5 * delta * delta)
                = real k * (9.5 * delta * delta) + 9.5 * delta * delta"
      by (simp add: distrib_right)
    have a2: "415 - el_y ?s1 < 1 + real k * (9.5 * delta * delta)"
      using Suc.prems(6) step_lo unfolding t(1) sk by linarith
    have "\<exists>n>0. (\<forall>j<n. el_mode (Elevator_run M (replicate j (delta, rnd)) ?s1) = mode_up)
              \<and> el_mode (Elevator_run M (replicate n (delta, rnd)) ?s1) = mode_wait
              \<and> el_y (Elevator_run M (replicate n (delta, rnd)) ?s1) = 415
              \<and> el_velocity (Elevator_run M (replicate n (delta, rnd)) ?s1) = 0
              \<and> el_waitTime (Elevator_run M (replicate n (delta, rnd)) ?s1) = 3 + rnd * 5"
      by (rule Suc.IH) (use t Suc.prems(1,2) nv0 nv(2) a1 a2 in simp_all)
    then obtain n where n: "0 < n"
      "\<forall>j<n. el_mode (Elevator_run M (replicate j (delta, rnd)) ?s1) = mode_up"
      "el_mode (Elevator_run M (replicate n (delta, rnd)) ?s1) = mode_wait"
      "el_y (Elevator_run M (replicate n (delta, rnd)) ?s1) = 415"
      "el_velocity (Elevator_run M (replicate n (delta, rnd)) ?s1) = 0"
      "el_waitTime (Elevator_run M (replicate n (delta, rnd)) ?s1) = 3 + rnd * 5"
      by blast
    have "\<forall>j<Suc n. el_mode (Elevator_run M (replicate j (delta, rnd)) s) = mode_up"
    proof (intro allI impI)
      fix j assume "j < Suc n"
      then show "el_mode (Elevator_run M (replicate j (delta, rnd)) s) = mode_up"
        using n(2) Suc.prems(1) by (cases j) (simp_all add: Elevator_run_Cons Elevator_run_Nil)
    qed
    moreover have "el_mode (Elevator_run M (replicate (Suc n) (delta, rnd)) s) = mode_wait"
      "el_y (Elevator_run M (replicate (Suc n) (delta, rnd)) s) = 415"
      "el_velocity (Elevator_run M (replicate (Suc n) (delta, rnd)) s) = 0"
      "el_waitTime (Elevator_run M (replicate (Suc n) (delta, rnd)) s) = 3 + rnd * 5"
      using n(3-6) by (simp_all add: Elevator_run_Cons)
    ultimately show ?thesis by blast
  qed
qed

lemma down_arrives_bounded:
  fixes delta rnd :: real
  assumes d: "0 < delta" "delta \<le> 1 / 10"
  shows "el_mode s = mode_down \<Longrightarrow> el_targetY s = 10 \<Longrightarrow>
         el_velocity s \<le> 0 \<Longrightarrow> - (15 + 10 * delta) \<le> el_velocity s \<Longrightarrow>
         - 1 < el_y s - 10 \<Longrightarrow> el_y s - 10 < 1 + real k * (9.5 * delta * delta) \<Longrightarrow>
         \<exists>n>0. (\<forall>j<n. el_mode (Elevator_run M (replicate j (delta, rnd)) s) = mode_down)
              \<and> el_mode (Elevator_run M (replicate n (delta, rnd)) s) = mode_wait
              \<and> el_y (Elevator_run M (replicate n (delta, rnd)) s) = 10
              \<and> el_velocity (Elevator_run M (replicate n (delta, rnd)) s) = 0
              \<and> el_waitTime (Elevator_run M (replicate n (delta, rnd)) s) = 3 + rnd * 5"
proof (induction k arbitrary: s)
  case 0
  have m: "el_mode s \<noteq> mode_wait" using "0.prems"(1) by simp
  have "\<bar>el_targetY s - el_y s\<bar> < 1" using "0.prems"(2,5,6) by simp
  then have e: "ends_move delta s" by (simp add: ends_move_def Let_def)
  have "\<forall>j<Suc 0. el_mode (Elevator_run M (replicate j (delta, rnd)) s) = mode_down"
    using "0.prems"(1) by (simp add: Elevator_run_Nil)
  moreover have "el_mode (Elevator_run M (replicate (Suc 0) (delta, rnd)) s) = mode_wait"
    "el_y (Elevator_run M (replicate (Suc 0) (delta, rnd)) s) = 10"
    "el_velocity (Elevator_run M (replicate (Suc 0) (delta, rnd)) s) = 0"
    "el_waitTime (Elevator_run M (replicate (Suc 0) (delta, rnd)) s) = 3 + rnd * 5"
    using Elevator_update_arrive [OF m e, of M rnd] "0.prems"(2)
    by (simp_all add: Elevator_run_Cons Elevator_run_Nil)
  ultimately show ?case by blast
next
  case (Suc k)
  have m: "el_mode s \<noteq> mode_wait" using Suc.prems(1) by simp
  show ?case
  proof (cases "\<bar>el_targetY s - el_y s\<bar> < 1")
    case True
    then have e: "ends_move delta s" by (simp add: ends_move_def Let_def)
    have "\<forall>j<Suc 0. el_mode (Elevator_run M (replicate j (delta, rnd)) s) = mode_down"
      using Suc.prems(1) by (simp add: Elevator_run_Nil)
    moreover have "el_mode (Elevator_run M (replicate (Suc 0) (delta, rnd)) s) = mode_wait"
      "el_y (Elevator_run M (replicate (Suc 0) (delta, rnd)) s) = 10"
      "el_velocity (Elevator_run M (replicate (Suc 0) (delta, rnd)) s) = 0"
      "el_waitTime (Elevator_run M (replicate (Suc 0) (delta, rnd)) s) = 3 + rnd * 5"
      using Elevator_update_arrive [OF m e, of M rnd] Suc.prems(2)
      by (simp_all add: Elevator_run_Cons Elevator_run_Nil)
    ultimately show ?thesis by blast
  next
    case False
    then have far: "el_targetY s - el_y s \<le> - 1" using Suc.prems(2,5) by simp
    then have pos: "el_targetY s - el_y s < 0" by simp
    note nv = next_velocity_down [OF d Suc.prems(3,4) pos]
    have nv0: "next_velocity delta s \<le> 0" using nv(1) d(1) by simp
    have ne: "\<not> ends_move delta s"
      using False pos nv0 by (simp add: ends_move_def Let_def Math_sign_def)
    let ?s1 = "Elevator_update M delta rnd s"
    note t = Elevator_update_travel [OF m ne, of M rnd]
    have "(- next_velocity delta s) * delta \<le> 1.6"
      by (rule small_step [OF d]) (use nv0 nv(2) in simp_all)
    then have step_hi: "- 1.6 \<le> next_velocity delta s * delta" by simp
    have "9.5 * delta * delta \<le> (- next_velocity delta s) * delta"
      by (rule mult_right_mono) (use nv(1) d(1) in simp_all)
    then have step_lo: "next_velocity delta s * delta \<le> - (9.5 * delta * delta)" by simp
    have a1: "- 1 < el_y ?s1 - 10"
      using far step_hi Suc.prems(2) by (simp add: t(1))
    have sk: "real (Suc k) * (9.5 * delta * delta)
                = real k * (9.5 * delta * delta) + 9.5 * delta * delta"
      by (simp add: distrib_right)
    have a2: "el_y ?s1 - 10 < 1 + real k * (9.5 * delta * delta)"
      using Suc.prems(6) step_lo unfolding t(1) sk by linarith
    have "\<exists>n>0. (\<forall>j<n. el_mode (Elevator_run M (replicate j (delta, rnd)) ?s1) = mode_down)
              \<and> el_mode (Elevator_run M (replicate n (delta, rnd)) ?s1) = mode_wait
              \<and> el_y (Elevator_run M (replicate n (delta, rnd)) ?s1) = 10
              \<and> el_velocity (Elevator_run M (replicate n (delta, rnd)) ?s1) = 0
              \<and> el_waitTime (Elevator_run M (replicate n (delta, rnd)) ?s1) = 3 + rnd * 5"
      by (rule Suc.IH) (use t Suc.prems(1,2) nv0 nv(2) a1 a2 in simp_all)
    then obtain n where n: "0 < n"
      "\<forall>j<n. el_mode (Elevator_run M (replicate j (delta, rnd)) ?s1) = mode_down"
      "el_mode (Elevator_run M (replicate n (delta, rnd)) ?s1) = mode_wait"
      "el_y (Elevator_run M (replicate n (delta, rnd)) ?s1) = 10"
      "el_velocity (Elevator_run M (replicate n (delta, rnd)) ?s1) = 0"
      "el_waitTime (Elevator_run M (replicate n (delta, rnd)) ?s1) = 3 + rnd * 5"
      by blast
    have "\<forall>j<Suc n. el_mode (Elevator_run M (replicate j (delta, rnd)) s) = mode_down"
    proof (intro allI impI)
      fix j assume "j < Suc n"
      then show "el_mode (Elevator_run M (replicate j (delta, rnd)) s) = mode_down"
        using n(2) Suc.prems(1) by (cases j) (simp_all add: Elevator_run_Cons Elevator_run_Nil)
    qed
    moreover have "el_mode (Elevator_run M (replicate (Suc n) (delta, rnd)) s) = mode_wait"
      "el_y (Elevator_run M (replicate (Suc n) (delta, rnd)) s) = 10"
      "el_velocity (Elevator_run M (replicate (Suc n) (delta, rnd)) s) = 0"
      "el_waitTime (Elevator_run M (replicate (Suc n) (delta, rnd)) s) = 3 + rnd * 5"
      using n(3-6) by (simp_all add: Elevator_run_Cons)
    ultimately show ?thesis by blast
  qed
qed


lemma wait_elapses_bounded:
  fixes delta rnd :: real
  assumes d: "0 < delta"
  shows "el_mode s = mode_wait \<Longrightarrow> el_waitTime s \<le> real k * delta \<Longrightarrow>
         \<exists>n>0. (\<forall>j<n. el_mode (Elevator_run M (replicate j (delta, rnd)) s) = mode_wait
                      \<and> el_y (Elevator_run M (replicate j (delta, rnd)) s) = el_y s)
              \<and> el_mode (Elevator_run M (replicate n (delta, rnd)) s)
                    = (if el_y s < 100 then mode_up else mode_down)
              \<and> el_targetY (Elevator_run M (replicate n (delta, rnd)) s)
                    = (if el_y s < 100 then 415 else 10)
              \<and> el_y (Elevator_run M (replicate n (delta, rnd)) s) = el_y s
              \<and> el_velocity (Elevator_run M (replicate n (delta, rnd)) s) = el_velocity s"
proof (induction k arbitrary: s)
  case 0
  then have le: "el_waitTime s - delta \<le> 0" using d by simp
  note w = Elevator_update_wait [OF "0.prems"(1), of M delta rnd]
  have "\<forall>j<Suc 0. el_mode (Elevator_run M (replicate j (delta, rnd)) s) = mode_wait
                      \<and> el_y (Elevator_run M (replicate j (delta, rnd)) s) = el_y s"
    using "0.prems"(1) by (simp add: Elevator_run_Nil)
  moreover have "el_mode (Elevator_run M (replicate (Suc 0) (delta, rnd)) s)
                    = (if el_y s < 100 then mode_up else mode_down)"
    "el_targetY (Elevator_run M (replicate (Suc 0) (delta, rnd)) s)
                    = (if el_y s < 100 then 415 else 10)"
    "el_y (Elevator_run M (replicate (Suc 0) (delta, rnd)) s) = el_y s"
    "el_velocity (Elevator_run M (replicate (Suc 0) (delta, rnd)) s) = el_velocity s"
    using w le by (simp_all add: Elevator_run_Cons Elevator_run_Nil)
  ultimately show ?case by blast
next
  case (Suc k)
  note w = Elevator_update_wait [OF Suc.prems(1), of M delta rnd]
  show ?case
  proof (cases "el_waitTime s - delta \<le> 0")
    case True
    have "\<forall>j<Suc 0. el_mode (Elevator_run M (replicate j (delta, rnd)) s) = mode_wait
                      \<and> el_y (Elevator_run M (replicate j (delta, rnd)) s) = el_y s"
      using Suc.prems(1) by (simp add: Elevator_run_Nil)
    moreover have "el_mode (Elevator_run M (replicate (Suc 0) (delta, rnd)) s)
                    = (if el_y s < 100 then mode_up else mode_down)"
      "el_targetY (Elevator_run M (replicate (Suc 0) (delta, rnd)) s)
                    = (if el_y s < 100 then 415 else 10)"
      "el_y (Elevator_run M (replicate (Suc 0) (delta, rnd)) s) = el_y s"
      "el_velocity (Elevator_run M (replicate (Suc 0) (delta, rnd)) s) = el_velocity s"
      using w True by (simp_all add: Elevator_run_Cons Elevator_run_Nil)
    ultimately show ?thesis by blast
  next
    case False
    let ?s1 = "Elevator_update M delta rnd s"
    have m1: "el_mode ?s1 = mode_wait" using w(4) False by simp
    have sk: "real (Suc k) * delta = real k * delta + delta" by (simp add: distrib_right)
    have w1: "el_waitTime ?s1 \<le> real k * delta"
      using Suc.prems(2) unfolding w(3) sk by linarith
    from Suc.IH [OF m1 w1] obtain n where n: "0 < n"
      "\<forall>j<n. el_mode (Elevator_run M (replicate j (delta, rnd)) ?s1) = mode_wait
                      \<and> el_y (Elevator_run M (replicate j (delta, rnd)) ?s1) = el_y ?s1"
      "el_mode (Elevator_run M (replicate n (delta, rnd)) ?s1)
                    = (if el_y ?s1 < 100 then mode_up else mode_down)"
      "el_targetY (Elevator_run M (replicate n (delta, rnd)) ?s1)
                    = (if el_y ?s1 < 100 then 415 else 10)"
      "el_y (Elevator_run M (replicate n (delta, rnd)) ?s1) = el_y ?s1"
      "el_velocity (Elevator_run M (replicate n (delta, rnd)) ?s1) = el_velocity ?s1"
      by blast
    have "\<forall>j<Suc n. el_mode (Elevator_run M (replicate j (delta, rnd)) s) = mode_wait
                      \<and> el_y (Elevator_run M (replicate j (delta, rnd)) s) = el_y s"
    proof (intro allI impI)
      fix j assume "j < Suc n"
      then show "el_mode (Elevator_run M (replicate j (delta, rnd)) s) = mode_wait
                      \<and> el_y (Elevator_run M (replicate j (delta, rnd)) s) = el_y s"
        using n(2) Suc.prems(1) w(1)
        by (cases j) (simp_all add: Elevator_run_Cons Elevator_run_Nil)
    qed
    moreover have "el_mode (Elevator_run M (replicate (Suc n) (delta, rnd)) s)
                    = (if el_y s < 100 then mode_up else mode_down)"
      "el_targetY (Elevator_run M (replicate (Suc n) (delta, rnd)) s)
                    = (if el_y s < 100 then 415 else 10)"
      "el_y (Elevator_run M (replicate (Suc n) (delta, rnd)) s) = el_y s"
      "el_velocity (Elevator_run M (replicate (Suc n) (delta, rnd)) s) = el_velocity s"
      using n(3-6) w(1,2) by (simp_all add: Elevator_run_Cons)
    ultimately show ?thesis by blast
  qed
qed

lemma elevator_cycle:
  fixes d r :: real
  assumes d: "0 < d" "d \<le> 1 / 10"
    and s: "el_mode s = mode_wait" "el_y s = 10" "el_velocity s = 0"
  shows "\<exists>n m. n < m
           \<and> el_mode (Elevator_run M (replicate n (d, r)) s) = mode_wait
           \<and> el_y (Elevator_run M (replicate n (d, r)) s) = 415
           \<and> el_velocity (Elevator_run M (replicate n (d, r)) s) = 0
           \<and> el_mode (Elevator_run M (replicate m (d, r)) s) = mode_wait
           \<and> el_y (Elevator_run M (replicate m (d, r)) s) = 10
           \<and> el_velocity (Elevator_run M (replicate m (d, r)) s) = 0"
proof -
  let ?f = "(d, r)"
  let ?c = "9.5 * d * d"
  have c: "0 < ?c" using d(1) by simp
  \<comment> \<open>the first dwell\<close>
  obtain k1 where "el_waitTime s < real k1 * d"
    using reals_Archimedean3 [OF d(1)] by blast
  then have "el_waitTime s \<le> real k1 * d" by simp
  from wait_elapses_bounded [OF d(1) s(1) this, of M r]
  obtain a where a:
    "el_mode (Elevator_run M (replicate a ?f) s) = mode_up"
    "el_targetY (Elevator_run M (replicate a ?f) s) = 415"
    "el_y (Elevator_run M (replicate a ?f) s) = 10"
    "el_velocity (Elevator_run M (replicate a ?f) s) = 0"
    using s(2,3) by auto
  let ?s1 = "Elevator_run M (replicate a ?f) s"
  \<comment> \<open>the way up\<close>
  obtain k2 where "404 < real k2 * ?c"
    using reals_Archimedean3 [OF c] by blast
  then have "415 - el_y ?s1 < 1 + real k2 * ?c" by (simp add: a(3))
  from up_arrives_bounded [OF d a(1,2) _ _ _ this, of M r]
  obtain b where b: "0 < b"
    "el_mode (Elevator_run M (replicate b ?f) ?s1) = mode_wait"
    "el_y (Elevator_run M (replicate b ?f) ?s1) = 415"
    "el_velocity (Elevator_run M (replicate b ?f) ?s1) = 0"
    using a(3,4) d(1) by auto
  let ?s2 = "Elevator_run M (replicate b ?f) ?s1"
  \<comment> \<open>the second dwell\<close>
  obtain k3 where "el_waitTime ?s2 < real k3 * d"
    using reals_Archimedean3 [OF d(1)] by blast
  then have "el_waitTime ?s2 \<le> real k3 * d" by simp
  from wait_elapses_bounded [OF d(1) b(2) this, of M r]
  obtain e where e:
    "el_mode (Elevator_run M (replicate e ?f) ?s2) = mode_down"
    "el_targetY (Elevator_run M (replicate e ?f) ?s2) = 10"
    "el_y (Elevator_run M (replicate e ?f) ?s2) = 415"
    "el_velocity (Elevator_run M (replicate e ?f) ?s2) = 0"
    using b(3,4) by auto
  let ?s3 = "Elevator_run M (replicate e ?f) ?s2"
  \<comment> \<open>the way down\<close>
  have "el_y ?s3 - 10 < 1 + real k2 * ?c" using \<open>404 < real k2 * ?c\<close> by (simp add: e(3))
  from down_arrives_bounded [OF d e(1,2) _ _ _ this, of M r]
  obtain g where g: "0 < g"
    "el_mode (Elevator_run M (replicate g ?f) ?s3) = mode_wait"
    "el_y (Elevator_run M (replicate g ?f) ?s3) = 10"
    "el_velocity (Elevator_run M (replicate g ?f) ?s3) = 0"
    using e(3,4) d(1) by auto
  have top: "Elevator_run M (replicate (a + b) ?f) s = ?s2"
    by (simp only: Elevator_run_add)
  have bot: "Elevator_run M (replicate (a + b + e + g) ?f) s
               = Elevator_run M (replicate g ?f) ?s3"
    by (simp only: Elevator_run_add)
  have "a + b < a + b + e + g" using g(1) by simp
  moreover have "el_mode (Elevator_run M (replicate (a + b) ?f) s) = mode_wait"
    "el_y (Elevator_run M (replicate (a + b) ?f) s) = 415"
    "el_velocity (Elevator_run M (replicate (a + b) ?f) s) = 0"
    unfolding top using b by simp_all
  moreover have "el_mode (Elevator_run M (replicate (a + b + e + g) ?f) s) = mode_wait"
    "el_y (Elevator_run M (replicate (a + b + e + g) ?f) s) = 10"
    "el_velocity (Elevator_run M (replicate (a + b + e + g) ?f) s) = 0"
    unfolding bot using g by simp_all
  ultimately show ?thesis by blast
qed

text \<open>
  C8. Elevator stops. In every state an elevator reaches from its constructor, whatever
  the deltas and random numbers: a step of a moving elevator that ends the move (distance
  to the target below 1, or velocity pointing away from the target) sets \<open>y\<close> exactly to
  the target, which is 415 when going up and 10 when going down, sets the velocity to 0
  and the mode to wait with the dwell \<open>3 + 5 rnd\<close>, positive for \<open>rnd \<ge> 0\<close>; a moving step
  that does not end the move keeps the mode; a waiting elevator stands at 10 or 415, keeps
  \<open>y\<close>, and leaves upwards from 10 and downwards from 415. Hence every up and down cycle
  from the bottom returns exactly to 10. With a constant frame time of at most a tenth of
  a second the cycle does take place: the elevator waits at 415 after some frames and at 10
  after some more.
\<close>

theorem elevator_exact_stops:
  fixes d r :: real
  assumes "0 < d" and "d \<le> 1 / 10"
  shows
   "(\<forall>fs delta rnd.
       let s = Elevator_run M fs (Elevator_constructor angle speedOffset r0);
           s' = Elevator_update M delta rnd s in
       el_inv s
       \<and> (el_mode s \<noteq> mode_wait \<and> ends_move delta s \<longrightarrow>
            el_y s' = el_targetY s \<and> el_y s' = (if el_mode s = mode_up then 415 else 10)
            \<and> el_velocity s' = 0 \<and> el_mode s' = mode_wait
            \<and> el_waitTime s' = 3 + rnd * 5 \<and> (0 \<le> rnd \<longrightarrow> 0 < el_waitTime s'))
       \<and> (el_mode s \<noteq> mode_wait \<and> \<not> ends_move delta s \<longrightarrow> el_mode s' = el_mode s)
       \<and> (el_mode s = mode_wait \<longrightarrow>
            el_y s' = el_y s
            \<and> (el_mode s' = mode_wait \<or> el_mode s' = (if el_y s = 10 then mode_up else mode_down))))
    \<and> (\<exists>n m. n < m
          \<and> el_mode (Elevator_run M (replicate n (d, r)) (Elevator_constructor angle speedOffset r0))
              = mode_wait
          \<and> el_y (Elevator_run M (replicate n (d, r)) (Elevator_constructor angle speedOffset r0))
              = 415
          \<and> el_velocity (Elevator_run M (replicate n (d, r)) (Elevator_constructor angle speedOffset r0))
              = 0
          \<and> el_mode (Elevator_run M (replicate m (d, r)) (Elevator_constructor angle speedOffset r0))
              = mode_wait
          \<and> el_y (Elevator_run M (replicate m (d, r)) (Elevator_constructor angle speedOffset r0))
              = 10
          \<and> el_velocity (Elevator_run M (replicate m (d, r)) (Elevator_constructor angle speedOffset r0))
              = 0)"
proof (intro conjI allI)
  fix fs delta rnd
  let ?s = "Elevator_run M fs (Elevator_constructor angle speedOffset r0)"
  let ?s' = "Elevator_update M delta rnd ?s"
  have inv: "el_inv ?s"
    by (rule Elevator_run_inv [OF Elevator_constructor_inv])
  have arrive: "el_mode ?s \<noteq> mode_wait \<and> ends_move delta ?s \<longrightarrow>
            el_y ?s' = el_targetY ?s \<and> el_y ?s' = (if el_mode ?s = mode_up then 415 else 10)
            \<and> el_velocity ?s' = 0 \<and> el_mode ?s' = mode_wait
            \<and> el_waitTime ?s' = 3 + rnd * 5 \<and> (0 \<le> rnd \<longrightarrow> 0 < el_waitTime ?s')"
  proof (intro impI, elim conjE)
    assume m: "el_mode ?s \<noteq> mode_wait" and e: "ends_move delta ?s"
    have t: "el_targetY ?s = (if el_mode ?s = mode_up then 415 else 10)"
      using inv m by (cases "el_mode ?s") (simp_all add: el_inv_def)
    have pos: "0 \<le> rnd \<longrightarrow> 0 < 3 + rnd * 5"
    proof
      assume "0 \<le> rnd"
      then have "0 \<le> rnd * 5" by simp
      then show "0 < 3 + rnd * 5" by linarith
    qed
    show "el_y ?s' = el_targetY ?s \<and> el_y ?s' = (if el_mode ?s = mode_up then 415 else 10)
            \<and> el_velocity ?s' = 0 \<and> el_mode ?s' = mode_wait
            \<and> el_waitTime ?s' = 3 + rnd * 5 \<and> (0 \<le> rnd \<longrightarrow> 0 < el_waitTime ?s')"
      unfolding Elevator_update_arrive [OF m e] using t pos by simp
  qed
  have travel: "el_mode ?s \<noteq> mode_wait \<and> \<not> ends_move delta ?s \<longrightarrow> el_mode ?s' = el_mode ?s"
    using Elevator_update_travel(3) by blast
  have dwell: "el_mode ?s = mode_wait \<longrightarrow>
            el_y ?s' = el_y ?s
            \<and> (el_mode ?s' = mode_wait \<or> el_mode ?s' = (if el_y ?s = 10 then mode_up else mode_down))"
  proof
    assume w: "el_mode ?s = mode_wait"
    have y: "el_y ?s = 10 \<or> el_y ?s = 415" using inv w by (simp add: el_inv_def)
    show "el_y ?s' = el_y ?s
            \<and> (el_mode ?s' = mode_wait \<or> el_mode ?s' = (if el_y ?s = 10 then mode_up else mode_down))"
      unfolding Elevator_update_wait [OF w] using y by auto
  qed
  show "let s = ?s; s' = Elevator_update M delta rnd s in
       el_inv s
       \<and> (el_mode s \<noteq> mode_wait \<and> ends_move delta s \<longrightarrow>
            el_y s' = el_targetY s \<and> el_y s' = (if el_mode s = mode_up then 415 else 10)
            \<and> el_velocity s' = 0 \<and> el_mode s' = mode_wait
            \<and> el_waitTime s' = 3 + rnd * 5 \<and> (0 \<le> rnd \<longrightarrow> 0 < el_waitTime s'))
       \<and> (el_mode s \<noteq> mode_wait \<and> \<not> ends_move delta s \<longrightarrow> el_mode s' = el_mode s)
       \<and> (el_mode s = mode_wait \<longrightarrow>
            el_y s' = el_y s
            \<and> (el_mode s' = mode_wait \<or> el_mode s' = (if el_y s = 10 then mode_up else mode_down)))"
    unfolding Let_def using inv arrive travel dwell by blast
next
  show "\<exists>n m. n < m
          \<and> el_mode (Elevator_run M (replicate n (d, r)) (Elevator_constructor angle speedOffset r0))
              = mode_wait
          \<and> el_y (Elevator_run M (replicate n (d, r)) (Elevator_constructor angle speedOffset r0))
              = 415
          \<and> el_velocity (Elevator_run M (replicate n (d, r)) (Elevator_constructor angle speedOffset r0))
              = 0
          \<and> el_mode (Elevator_run M (replicate m (d, r)) (Elevator_constructor angle speedOffset r0))
              = mode_wait
          \<and> el_y (Elevator_run M (replicate m (d, r)) (Elevator_constructor angle speedOffset r0))
              = 10
          \<and> el_velocity (Elevator_run M (replicate m (d, r)) (Elevator_constructor angle speedOffset r0))
              = 0"
    by (rule elevator_cycle [OF assms]) (simp_all add: Elevator_constructor_def)
qed

theorem elevator_exact_stops_witness:
  "(0::real) < 1 / 60 \<and> (1::real) / 60 \<le> 1 / 10
   \<and> (\<exists>n m. n < m
         \<and> el_y (Elevator_run exact_math (replicate n (1 / 60, 1 / 2)) (Elevator_constructor 60 0 (1 / 2))) = 415
         \<and> el_y (Elevator_run exact_math (replicate m (1 / 60, 1 / 2)) (Elevator_constructor 60 0 (1 / 2))) = 10)"
proof -
  have a: "(0::real) < 1 / 60" and b: "(1::real) / 60 \<le> 1 / 10" by simp_all
  from elevator_exact_stops [OF a b, of exact_math 60 0 "1 / 2" "1 / 2", THEN conjunct2]
  have "\<exists>n m. n < m
         \<and> el_y (Elevator_run exact_math (replicate n (1 / 60, 1 / 2)) (Elevator_constructor 60 0 (1 / 2))) = 415
         \<and> el_y (Elevator_run exact_math (replicate m (1 / 60, 1 / 2)) (Elevator_constructor 60 0 (1 / 2))) = 10"
    by blast
  with a b show ?thesis by blast
qed

lemma replicate_23: "replicate 23 x = [x,x,x,x,x,x,x,x,x,x,x,x,x,x,x,x,x,x,x,x,x,x,x]"
  by (simp add: eval_nat_numeral)

lemma replicate_48: "replicate 48 x = replicate 23 x @ replicate 23 x @ [x, x]"
  by (simp add: eval_nat_numeral)

text \<open>One run with frames of one second: at the top after 23 frames, back at the bottom
  after 48.\<close>

lemma elevator_concrete_round_trip:
  "el_mode (Elevator_run M (replicate 23 (1, 0)) (Elevator_constructor 60 0 0)) = mode_wait \<and>
   el_y (Elevator_run M (replicate 23 (1, 0)) (Elevator_constructor 60 0 0)) = 415 \<and>
   el_mode (Elevator_run M (replicate 48 (1, 0)) (Elevator_constructor 60 0 0)) = mode_wait \<and>
   el_y (Elevator_run M (replicate 48 (1, 0)) (Elevator_constructor 60 0 0)) = 10"
  unfolding replicate_48 replicate_23
  by (simp add: Elevator_run_def Elevator_update_def ends_move_def next_velocity_def
        Math_sign_def Let_def Elevator_constructor_def)

end
